theory Spec2Isabelle
  imports Main
begin

section \<open>Values of the plugin framework\<close>

text \<open>
  \<^verbatim>\<open>types.String\<close> of the plugin framework is null, unknown or a known string.
  \<^verbatim>\<open>ValueString()\<close> gives the empty string for null and unknown,
  \<^verbatim>\<open>ValueStringPointer()\<close> gives nil for null and a pointer to the empty string
  for unknown.
\<close>

datatype tfString = StringNull | StringUnknown | StringValue string

fun ValueString :: "tfString \<Rightarrow> string" where
  "ValueString (StringValue s) = s"
| "ValueString StringNull = []"
| "ValueString StringUnknown = []"

fun IsNull :: "tfString \<Rightarrow> bool" where
  "IsNull StringNull = True"
| "IsNull StringUnknown = False"
| "IsNull (StringValue s) = False"

fun ValueStringPointer :: "tfString \<Rightarrow> string option" where
  "ValueStringPointer StringNull = None"
| "ValueStringPointer StringUnknown = Some []"
| "ValueStringPointer (StringValue s) = Some s"

datatype Severity = SeverityError | SeverityWarning

record Diagnostic =
  severity :: Severity
  summary :: string
  detail :: string

fun HasError :: "Diagnostic list \<Rightarrow> bool" where
  "HasError [] = False"
| "HasError (d # ds) = (severity d = SeverityError \<or> HasError ds)"

definition AddError :: "string \<Rightarrow> string \<Rightarrow> Diagnostic list \<Rightarrow> Diagnostic list" where
  "AddError s d ds = ds @ [\<lparr>severity = SeverityError, summary = s, detail = d\<rparr>]"

section \<open>The patch resource (patch\_resource.go)\<close>

text \<open>\<^verbatim>\<open>PatchResourceModel\<close>; the field \<^verbatim>\<open>Id\<close> is named \<open>IdAttr\<close> here.\<close>

record PatchResourceModel =
  Namespace :: tfString
  Resource :: tfString
  Name :: tfString
  Type :: tfString
  Data :: tfString
  IdAttr :: tfString

text \<open>
  The values of the \<^verbatim>\<open>stringvalidator.OneOf\<close> validators of the schema, in the
  order of the source.
\<close>

definition resourceOneOf :: "string list" where
  "resourceOneOf =
    [''bindings'', ''componentstatuses'', ''configmaps'', ''endpoints'', ''events'',
     ''limitranges'', ''namespaces'', ''nodes'', ''persistentvolumeclaims'',
     ''persistentvolumes'', ''pods'', ''podtemplates'', ''replicationcontrollers'',
     ''resourcequotas'', ''secrets'', ''serviceaccounts'', ''services'',
     ''controllerrevisions'', ''daemonsets'', ''deployments'', ''replicasets'',
     ''statefulsets'', ''cronjobs'', ''jobs'']"

definition typeOneOf :: "string list" where
  "typeOneOf = [''json'', ''merge'', ''strategic'']"

text \<open>
  \<^verbatim>\<open>k8stypes.PatchType\<close>: the three constants the source names, and the zero value
  of the declaration \<^verbatim>\<open>var pt k8stypes.PatchType\<close>.
\<close>

datatype PatchType = JSONPatchType | MergePatchType | StrategicMergePatchType | PatchTypeZero

text \<open>
  The typed clients of the client library that the source reaches, grouped as the source
  reaches them: \<^verbatim>\<open>r.client.CoreV1().ConfigMaps(namespace)\<close> is
  \<open>CoreV1 (ConfigMaps namespace)\<close>. A cluster-scoped client takes no namespace.
\<close>

datatype CoreV1Client =
    ComponentStatuses
  | ConfigMaps string
  | Endpoints string
  | Events string
  | LimitRanges string
  | Namespaces
  | Nodes
  | PersistentVolumeClaims string
  | PersistentVolumes
  | Pods string
  | PodTemplates string
  | ReplicationControllers string
  | ResourceQuotas string
  | Secrets string
  | ServiceAccounts string
  | Services string

datatype AppsV1Client =
    ControllerRevisions string
  | DaemonSets string
  | Deployments string
  | ReplicaSets string
  | StatefulSets string

datatype BatchV1Client = CronJobs string | Jobs string

datatype TypedClient = CoreV1 CoreV1Client | AppsV1 AppsV1Client | BatchV1 BatchV1Client

text \<open>
  One \<^verbatim>\<open>Patch(ctx, name, pt, data, metav1.PatchOptions{})\<close> call on a typed client.
  The options are the empty struct in every branch and are left out.
\<close>

record PatchCall =
  target :: TypedClient
  callName :: string
  callType :: PatchType
  callData :: string

text \<open>The first switch of \<^verbatim>\<open>patch\<close>, on \<^verbatim>\<open>data.Type.ValueString()\<close>.\<close>

definition patchType :: "string \<Rightarrow> PatchType" where
  "patchType t =
    (if t = ''json'' then JSONPatchType
     else if t = ''merge'' then MergePatchType
     else if t = ''strategic'' then StrategicMergePatchType
     else PatchTypeZero)"

text \<open>
  The second switch of \<^verbatim>\<open>patch\<close>, on \<^verbatim>\<open>data.Resource.ValueString()\<close>: the typed
  client each case reaches, \<open>None\<close> where no case matches.
\<close>

definition selectClient :: "string \<Rightarrow> string \<Rightarrow> TypedClient option" where
  "selectClient res namespace =
    (if res = ''componentstatuses'' then Some (CoreV1 ComponentStatuses)
     else if res = ''configmaps'' then Some (CoreV1 (ConfigMaps namespace))
     else if res = ''endpoints'' then Some (CoreV1 (Endpoints namespace))
     else if res = ''events'' then Some (CoreV1 (Events namespace))
     else if res = ''limitranges'' then Some (CoreV1 (LimitRanges namespace))
     else if res = ''namespaces'' then Some (CoreV1 Namespaces)
     else if res = ''nodes'' then Some (CoreV1 Nodes)
     else if res = ''persistentvolumeclaims'' then Some (CoreV1 (PersistentVolumeClaims namespace))
     else if res = ''persistentvolumes'' then Some (CoreV1 PersistentVolumes)
     else if res = ''pods'' then Some (CoreV1 (Pods namespace))
     else if res = ''podtemplates'' then Some (CoreV1 (PodTemplates namespace))
     else if res = ''replicationcontrollers'' then Some (CoreV1 (ReplicationControllers namespace))
     else if res = ''resourcequotas'' then Some (CoreV1 (ResourceQuotas namespace))
     else if res = ''secrets'' then Some (CoreV1 (Secrets namespace))
     else if res = ''serviceaccounts'' then Some (CoreV1 (ServiceAccounts namespace))
     else if res = ''services'' then Some (CoreV1 (Services namespace))
     else if res = ''controllerrevisions'' then Some (AppsV1 (ControllerRevisions namespace))
     else if res = ''daemonsets'' then Some (AppsV1 (DaemonSets namespace))
     else if res = ''deployments'' then Some (AppsV1 (Deployments namespace))
     else if res = ''replicasets'' then Some (AppsV1 (ReplicaSets namespace))
     else if res = ''statefulsets'' then Some (AppsV1 (StatefulSets namespace))
     else if res = ''cronjobs'' then Some (BatchV1 (CronJobs namespace))
     else if res = ''jobs'' then Some (BatchV1 (Jobs namespace))
     else None)"

text \<open>
  The call a branch of the second switch makes: the selected client with
  \<^verbatim>\<open>data.Name.ValueString()\<close>, \<^verbatim>\<open>pt\<close> and \<^verbatim>\<open>[]byte(data.Data.ValueString())\<close>.
\<close>

definition selectCall :: "PatchResourceModel \<Rightarrow> PatchCall option" where
  "selectCall data =
    (let pt = patchType (ValueString (Type data));
         namespace = ValueString (Namespace data)
     in case selectClient (ValueString (Resource data)) namespace of
          None \<Rightarrow> None
        | Some c \<Rightarrow> Some \<lparr>target = c, callName = ValueString (Name data),
                          callType = pt, callData = ValueString (Data data)\<rparr>)"

text \<open>
  A client set is built from a connection configuration by the client library (of
  \<^verbatim>\<open>rest.Config\<close>, the host, the TLS data, the bearer token and the exec provider
  are kept); the resource holds a pointer to one, which may be nil. The library calls made are recorded
  in a trace, and the answer of the cluster to a call (nil or an error message) is a
  parameter \<open>srv\<close>.
\<close>

record ExecConfig =
  execInteractiveMode :: string
  execAPIVersion :: string
  execCommand :: string
  execArgs :: "string list"
  execEnv :: "(string \<times> string) list"

record RestConfig =
  cfgHost :: string
  cfgCAData :: string
  cfgCertData :: string
  cfgKeyData :: string
  cfgBearerToken :: string
  cfgExecProvider :: "ExecConfig option"

datatype Clientset = Clientset RestConfig

datatype Event = NewForConfig RestConfig | ApiPatch Clientset PatchCall

type_synonym Trace = "Event list"

type_synonym Cluster = "Clientset \<Rightarrow> PatchCall \<Rightarrow> string option"

record PatchResource =
  client :: "Clientset option"

datatype go_panic = NilPointerDereference

text \<open>
  \<^verbatim>\<open>patch\<close>: the selected call is made on \<^verbatim>\<open>r.client\<close> and its error returned;
  where no case matches nothing is called and the nil error is returned. Reaching a typed
  client through a nil \<^verbatim>\<open>r.client\<close> panics.
\<close>

definition patch ::
  "Cluster \<Rightarrow> PatchResource \<Rightarrow> PatchResourceModel \<Rightarrow> Trace \<Rightarrow> go_panic + (string option \<times> Trace)" where
  "patch srv r data tr =
    (case selectCall data of
       None \<Rightarrow> Inr (None, tr)
     | Some call \<Rightarrow>
         (case client r of
            None \<Rightarrow> Inl NilPointerDereference
          | Some cs \<Rightarrow> Inr (srv cs call, tr @ [ApiPatch cs call])))"

text \<open>
  The REST resource each typed client of the client library addresses (the argument of
  \<^verbatim>\<open>Resource(...)\<close> in its request builder).
\<close>

fun coreV1Resource :: "CoreV1Client \<Rightarrow> string" where
  "coreV1Resource ComponentStatuses = ''componentstatuses''"
| "coreV1Resource (ConfigMaps n) = ''configmaps''"
| "coreV1Resource (Endpoints n) = ''endpoints''"
| "coreV1Resource (Events n) = ''events''"
| "coreV1Resource (LimitRanges n) = ''limitranges''"
| "coreV1Resource Namespaces = ''namespaces''"
| "coreV1Resource Nodes = ''nodes''"
| "coreV1Resource (PersistentVolumeClaims n) = ''persistentvolumeclaims''"
| "coreV1Resource PersistentVolumes = ''persistentvolumes''"
| "coreV1Resource (Pods n) = ''pods''"
| "coreV1Resource (PodTemplates n) = ''podtemplates''"
| "coreV1Resource (ReplicationControllers n) = ''replicationcontrollers''"
| "coreV1Resource (ResourceQuotas n) = ''resourcequotas''"
| "coreV1Resource (Secrets n) = ''secrets''"
| "coreV1Resource (ServiceAccounts n) = ''serviceaccounts''"
| "coreV1Resource (Services n) = ''services''"

fun appsV1Resource :: "AppsV1Client \<Rightarrow> string" where
  "appsV1Resource (ControllerRevisions n) = ''controllerrevisions''"
| "appsV1Resource (DaemonSets n) = ''daemonsets''"
| "appsV1Resource (Deployments n) = ''deployments''"
| "appsV1Resource (ReplicaSets n) = ''replicasets''"
| "appsV1Resource (StatefulSets n) = ''statefulsets''"

fun batchV1Resource :: "BatchV1Client \<Rightarrow> string" where
  "batchV1Resource (CronJobs n) = ''cronjobs''"
| "batchV1Resource (Jobs n) = ''jobs''"

fun restResource :: "TypedClient \<Rightarrow> string" where
  "restResource (CoreV1 c) = coreV1Resource c"
| "restResource (AppsV1 c) = appsV1Resource c"
| "restResource (BatchV1 c) = batchV1Resource c"

text \<open>
  The requests and the response of the framework. \<^verbatim>\<open>req.Plan.Get\<close> and
  \<^verbatim>\<open>req.State.Get\<close> give diagnostics and the decoded model; the response carries the
  diagnostics and the state. \<^verbatim>\<open>resp.State.Set\<close> of a value of the model's own type
  stores it and gives no diagnostics. The \<^verbatim>\<open>tflog.Trace\<close> line of \<^verbatim>\<open>Create\<close>
  only logs and is left out.
\<close>

record CreateRequest =
  createPlanGet :: "Diagnostic list \<times> PatchResourceModel"

record UpdateRequest =
  updatePlanGet :: "Diagnostic list \<times> PatchResourceModel"

record ReadRequest =
  readStateGet :: "Diagnostic list \<times> PatchResourceModel"

record DeleteRequest =
  deleteStateGet :: "Diagnostic list \<times> PatchResourceModel"

record Response =
  Diagnostics :: "Diagnostic list"
  State :: "PatchResourceModel option"

definition clientError :: "string \<Rightarrow> Diagnostic list \<Rightarrow> Diagnostic list" where
  "clientError err ds = AddError ''Client Error'' (''Unable to patch, got error: '' @ err) ds"

definition Create ::
  "Cluster \<Rightarrow> PatchResource \<Rightarrow> CreateRequest \<Rightarrow> Response \<Rightarrow> Trace \<Rightarrow> go_panic + (Response \<times> Trace)" where
  "Create srv r req resp tr =
    (let resp1 = resp\<lparr>Diagnostics := Diagnostics resp @ fst (createPlanGet req)\<rparr>
     in if HasError (Diagnostics resp1) then Inr (resp1, tr)
        else
          (let data = (snd (createPlanGet req))\<lparr>IdAttr := StringValue ''example-id''\<rparr>
           in case patch srv r data tr of
                Inl p \<Rightarrow> Inl p
              | Inr (Some err, tr') \<Rightarrow>
                  Inr (resp1\<lparr>Diagnostics := clientError err (Diagnostics resp1)\<rparr>, tr')
              | Inr (None, tr') \<Rightarrow> Inr (resp1\<lparr>State := Some data\<rparr>, tr')))"

definition Update ::
  "Cluster \<Rightarrow> PatchResource \<Rightarrow> UpdateRequest \<Rightarrow> Response \<Rightarrow> Trace \<Rightarrow> go_panic + (Response \<times> Trace)" where
  "Update srv r req resp tr =
    (let resp1 = resp\<lparr>Diagnostics := Diagnostics resp @ fst (updatePlanGet req)\<rparr>
     in if HasError (Diagnostics resp1) then Inr (resp1, tr)
        else
          (let data = snd (updatePlanGet req)
           in case patch srv r data tr of
                Inl p \<Rightarrow> Inl p
              | Inr (Some err, tr') \<Rightarrow>
                  Inr (resp1\<lparr>Diagnostics := clientError err (Diagnostics resp1)\<rparr>, tr')
              | Inr (None, tr') \<Rightarrow> Inr (resp1\<lparr>State := Some data\<rparr>, tr')))"

definition Read ::
  "PatchResource \<Rightarrow> ReadRequest \<Rightarrow> Response \<Rightarrow> Trace \<Rightarrow> Response \<times> Trace" where
  "Read r req resp tr =
    (let resp1 = resp\<lparr>Diagnostics := Diagnostics resp @ fst (readStateGet req)\<rparr>
     in if HasError (Diagnostics resp1) then (resp1, tr)
        else (resp1\<lparr>State := Some (snd (readStateGet req))\<rparr>, tr))"

definition Delete ::
  "PatchResource \<Rightarrow> DeleteRequest \<Rightarrow> Response \<Rightarrow> Trace \<Rightarrow> Response \<times> Trace" where
  "Delete r req resp tr =
    (let resp1 = resp\<lparr>Diagnostics := Diagnostics resp @ fst (deleteStateGet req)\<rparr>
     in if HasError (Diagnostics resp1) then (resp1, tr)
        else (resp1, tr))"

text \<open>
  \<^verbatim>\<open>req.ProviderData\<close> is an interface value: nil, a pointer to a client set (which may
  itself be nil), or a value of another type, kept as the name \<^verbatim>\<open>%T\<close> prints.
\<close>

datatype ProviderData = PDNil | PDClientset "Clientset option" | PDOther string

definition Configure ::
  "PatchResource \<Rightarrow> ProviderData \<Rightarrow> Diagnostic list \<Rightarrow> PatchResource \<times> Diagnostic list" where
  "Configure r pd ds =
    (case pd of
       PDNil \<Rightarrow> (r, ds)
     | PDOther t \<Rightarrow>
         (r, AddError ''Unexpected Resource Configure Type''
               (''Expected *http.Client, got: '' @ t @
                ''. Please report this issue to the provider developers.'') ds)
     | PDClientset c \<Rightarrow> (r\<lparr>client := c\<rparr>, ds))"

text \<open>
  A sequence of the framework's calls on one configured resource, each with its request
  and the response the framework hands in.
\<close>

datatype Op =
    OpCreate CreateRequest Response
  | OpRead ReadRequest Response
  | OpUpdate UpdateRequest Response
  | OpDelete DeleteRequest Response

fun runOp :: "Cluster \<Rightarrow> PatchResource \<Rightarrow> Op \<Rightarrow> Trace \<Rightarrow> go_panic + (Response \<times> Trace)" where
  "runOp srv r (OpCreate req resp) tr = Create srv r req resp tr"
| "runOp srv r (OpRead req resp) tr = Inr (Read r req resp tr)"
| "runOp srv r (OpUpdate req resp) tr = Update srv r req resp tr"
| "runOp srv r (OpDelete req resp) tr = Inr (Delete r req resp tr)"

fun runOps :: "Cluster \<Rightarrow> PatchResource \<Rightarrow> Op list \<Rightarrow> Trace \<Rightarrow> go_panic + Trace" where
  "runOps srv r [] tr = Inr tr"
| "runOps srv r (op # ops) tr =
     (case runOp srv r op tr of
        Inl p \<Rightarrow> Inl p
      | Inr (resp, tr') \<Rightarrow> runOps srv r ops tr')"

section \<open>The provider\<close>

text \<open>
  The provider (\<^verbatim>\<open>KubernetesPatchProvider\<close>, \<^verbatim>\<open>initializeConfiguration\<close>) is the
  second Go file held in patch\_resource\_test.go. Its \<^verbatim>\<open>log.Printf\<close> lines and the
  string \<^verbatim>\<open>ctxSuffix\<close>, which is built and never read, are left out.
\<close>

text \<open>
  \<^verbatim>\<open>types.Bool\<close>, and the \<^verbatim>\<open>String()\<close> rendering of a \<^verbatim>\<open>types.String\<close>: the
  framework prints a known value with \<^verbatim>\<open>%q\<close>, which is the parameter \<open>q\<close>.
\<close>

datatype tfBool = BoolNull | BoolUnknown | BoolValue bool

fun ValueBoolPointer :: "tfBool \<Rightarrow> bool option" where
  "ValueBoolPointer BoolNull = None"
| "ValueBoolPointer BoolUnknown = Some False"
| "ValueBoolPointer (BoolValue b) = Some b"

fun String :: "(string \<Rightarrow> string) \<Rightarrow> tfString \<Rightarrow> string" where
  "String q StringNull = ''<null>''"
| "String q StringUnknown = ''<unknown>''"
| "String q (StringValue s) = q s"

text \<open>
  \<^verbatim>\<open>KubernetesPatchProviderModel\<close>. The fields \<^verbatim>\<open>IgnoreAnnotations\<close>,
  \<^verbatim>\<open>IgnoreLabels\<close> and \<^verbatim>\<open>Experiments\<close> are read nowhere and are left out. The
  \<^verbatim>\<open>env\<close> map of an exec block is a list in the order the range loop visits it.
\<close>

record ExecBlock =
  APIVersion :: tfString
  Command :: tfString
  Env :: "(string \<times> tfString) list"
  Args :: "tfString list"

record KubernetesPatchProviderModel =
  Host :: tfString
  Username :: tfString
  Password :: tfString
  Insecure :: tfBool
  TLSServerName :: tfString
  ClientCertificate :: tfString
  ClientKey :: tfString
  ClusterCACertificate :: tfString
  ConfigPaths :: "tfString list"
  ConfigPath :: tfString
  ConfigContext :: tfString
  ConfigContextAuthInfo :: tfString
  ConfigContextCluster :: tfString
  Token :: tfString
  ProxyURL :: tfString
  Exec :: "ExecBlock list"

definition emptyRestConfig :: RestConfig where
  "emptyRestConfig =
    \<lparr>cfgHost = [], cfgCAData = [], cfgCertData = [], cfgKeyData = [], cfgBearerToken = [],
     cfgExecProvider = None\<rparr>"

record ProviderConfigureRequest =
  configGet :: "Diagnostic list \<times> KubernetesPatchProviderModel"

record ProviderConfigureResponse =
  provDiagnostics :: "Diagnostic list"
  DataSourceData :: ProviderData
  ResourceData :: ProviderData

text \<open>
  The connection configuration \<^verbatim>\<open>KubernetesPatchProvider.Configure\<close> hands to
  \<^verbatim>\<open>kubernetes.NewForConfig\<close>. The statement under the test of
  \<^verbatim>\<open>data.ClusterCACertificate\<close> is the bare expression \<^verbatim>\<open>cfg.CAData\<close>, which
  assigns nothing.
\<close>

definition configureRestConfig :: "(string \<Rightarrow> string) \<Rightarrow> KubernetesPatchProviderModel \<Rightarrow> RestConfig" where
  "configureRestConfig q data =
    (let cfg = emptyRestConfig;
         cfg = (if \<not> IsNull (Host data) then cfg\<lparr>cfgHost := String q (Host data)\<rparr> else cfg);
         cfg = (if \<not> IsNull (ClusterCACertificate data) then cfg else cfg)
     in cfg)"

text \<open>
  \<^verbatim>\<open>KubernetesPatchProvider.Configure\<close>; \<open>newForConfig\<close> is
  \<^verbatim>\<open>kubernetes.NewForConfig\<close> of the client library, and the data-source data is
  \<^verbatim>\<open>http.DefaultClient\<close>.
\<close>

definition ProviderConfigure ::
  "(string \<Rightarrow> string) \<Rightarrow> (RestConfig \<Rightarrow> string + Clientset) \<Rightarrow> ProviderConfigureRequest \<Rightarrow>
   ProviderConfigureResponse \<Rightarrow> Trace \<Rightarrow> ProviderConfigureResponse \<times> Trace" where
  "ProviderConfigure q newForConfig req resp tr =
    (let resp1 = resp\<lparr>provDiagnostics := provDiagnostics resp @ fst (configGet req)\<rparr>
     in if HasError (provDiagnostics resp1) then (resp1, tr)
        else
          (let cfg = configureRestConfig q (snd (configGet req))
           in case newForConfig cfg of
                Inl err \<Rightarrow>
                  (resp1\<lparr>provDiagnostics := AddError ''could not get clientset'' err (provDiagnostics resp1)\<rparr>,
                   tr @ [NewForConfig cfg])
              | Inr clientset \<Rightarrow>
                  (resp1\<lparr>DataSourceData := PDOther ''*http.Client'',
                         ResourceData := PDClientset (Some clientset)\<rparr>,
                   tr @ [NewForConfig cfg])))"

subsection \<open>initializeConfiguration\<close>

text \<open>
  The loading rules and the overrides of the client library that
  \<^verbatim>\<open>initializeConfiguration\<close> fills in, with the nested structs flattened
  (\<open>ovServer\<close> is \<^verbatim>\<open>overrides.ClusterInfo.Server\<close>), and the diagnostics of the SDK.
\<close>

record ClientConfigLoadingRules =
  ExplicitPath :: string
  Precedence :: "string list"

record ConfigOverrides =
  ovCurrentContext :: string
  ovContextAuthInfo :: string
  ovContextCluster :: string
  ovInsecureSkipTLSVerify :: bool
  ovTLSServerName :: string
  ovCertificateAuthorityData :: string
  ovServer :: string
  ovClientCertificateData :: string
  ovClientKeyData :: string
  ovUsername :: string
  ovPassword :: string
  ovToken :: string
  ovExec :: "ExecConfig option"
  ovProxyURL :: string

record SdkDiagnostic =
  sdkSeverity :: Severity
  sdkSummary :: string
  sdkDetail :: string
  sdkAttributePath :: "string list"

definition emptyLoadingRules :: ClientConfigLoadingRules where
  "emptyLoadingRules = \<lparr>ExplicitPath = [], Precedence = []\<rparr>"

definition emptyOverrides :: ConfigOverrides where
  "emptyOverrides =
    \<lparr>ovCurrentContext = [], ovContextAuthInfo = [], ovContextCluster = [],
     ovInsecureSkipTLSVerify = False, ovTLSServerName = [], ovCertificateAuthorityData = [],
     ovServer = [], ovClientCertificateData = [], ovClientKeyData = [], ovUsername = [],
     ovPassword = [], ovToken = [], ovExec = None, ovProxyURL = []\<rparr>"

definition FromErr :: "string \<Rightarrow> SdkDiagnostic list" where
  "FromErr err =
    [\<lparr>sdkSeverity = SeverityError, sdkSummary = err, sdkDetail = [], sdkAttributePath = []\<rparr>]"

text \<open>
  What \<^verbatim>\<open>initializeConfiguration\<close> takes from outside the repository: the
  environment, \<^verbatim>\<open>filepath.SplitList\<close>, \<^verbatim>\<open>homedir.Expand\<close>,
  \<^verbatim>\<open>restclient.DefaultServerURL\<close> (the host it returns, rendered), the deferred
  loading of the client configuration, and \<^verbatim>\<open>%q\<close>.
\<close>

record Externals =
  Getenv :: "string \<Rightarrow> string"
  SplitList :: "string \<Rightarrow> string list"
  Expand :: "string \<Rightarrow> string + string"
  DefaultServerURL :: "string \<Rightarrow> bool \<Rightarrow> string + string"
  ClientConfig :: "ClientConfigLoadingRules \<Rightarrow> ConfigOverrides \<Rightarrow> string + RestConfig"
  Quote :: "string \<Rightarrow> string"

text \<open>The chain that fills \<^verbatim>\<open>configPaths\<close>.\<close>

definition configPaths :: "Externals \<Rightarrow> KubernetesPatchProviderModel \<Rightarrow> string list" where
  "configPaths ext d =
    (case ValueStringPointer (ConfigPath d) of
       Some v \<Rightarrow> [v]
     | None \<Rightarrow>
         if length (ConfigPaths d) > 0 then map (String (Quote ext)) (ConfigPaths d)
         else if Getenv ext ''KUBE_CONFIG_PATHS'' \<noteq> [] then
           SplitList ext (Getenv ext ''KUBE_CONFIG_PATHS'')
         else [])"

text \<open>The loop over \<^verbatim>\<open>configPaths\<close>, which returns at the first path that does not expand.\<close>

fun expandPaths :: "(string \<Rightarrow> string + string) \<Rightarrow> string list \<Rightarrow> string list \<Rightarrow> string + string list" where
  "expandPaths expand expandedPaths [] = Inr expandedPaths"
| "expandPaths expand expandedPaths (p # ps) =
     (case expand p of
        Inl err \<Rightarrow> Inl err
      | Inr path \<Rightarrow> expandPaths expand (expandedPaths @ [path]) ps)"

text \<open>The context overrides, made only under \<^verbatim>\<open>len(configPaths) > 0\<close>.\<close>

definition contextOverrides :: "KubernetesPatchProviderModel \<Rightarrow> ConfigOverrides \<Rightarrow> ConfigOverrides" where
  "contextOverrides d overrides =
    (let kubectx = ValueStringPointer (ConfigContext d);
         authInfo = ValueStringPointer (ConfigContextAuthInfo d);
         cluster = ValueStringPointer (ConfigContextCluster d)
     in if kubectx \<noteq> None \<or> authInfo \<noteq> None \<or> cluster \<noteq> None then
          (let o1 = (case kubectx of None \<Rightarrow> overrides
                     | Some v \<Rightarrow> overrides\<lparr>ovCurrentContext := v\<rparr>);
               o2 = o1\<lparr>ovContextAuthInfo := [], ovContextCluster := []\<rparr>;
               o3 = (case authInfo of None \<Rightarrow> o2 | Some v \<Rightarrow> o2\<lparr>ovContextAuthInfo := v\<rparr>);
               o4 = (case cluster of None \<Rightarrow> o3 | Some v \<Rightarrow> o3\<lparr>ovContextCluster := v\<rparr>)
           in o4)
        else overrides)"

text \<open>
  The first part of \<^verbatim>\<open>initializeConfiguration\<close>, up to the comment
  \<^verbatim>\<open>Overriding with static configuration\<close>: the loading rules and the overrides, or
  the diagnostics of the early return.
\<close>

definition loadingRules ::
  "Externals \<Rightarrow> KubernetesPatchProviderModel \<Rightarrow>
   SdkDiagnostic list + (ClientConfigLoadingRules \<times> ConfigOverrides)" where
  "loadingRules ext d =
    (let diags = []; overrides = emptyOverrides; loader = emptyLoadingRules;
         paths = configPaths ext d
     in if length paths > 0 then
          (case expandPaths (Expand ext) [] paths of
             Inl err \<Rightarrow> Inl (diags @ FromErr err)
           | Inr expandedPaths \<Rightarrow>
               (let loader1 =
                      (if length expandedPaths = 1 then loader\<lparr>ExplicitPath := hd expandedPaths\<rparr>
                       else loader\<lparr>Precedence := expandedPaths\<rparr>)
                in Inr (loader1, contextOverrides d overrides)))
        else Inr (loader, overrides))"

text \<open>The exec block: only the first one is read.\<close>

definition execConfig :: "Externals \<Rightarrow> ExecBlock \<Rightarrow> ExecConfig" where
  "execConfig ext spec =
    \<lparr>execInteractiveMode = ''IfAvailable'',
     execAPIVersion = String (Quote ext) (APIVersion spec),
     execCommand = String (Quote ext) (Command spec),
     execArgs = map (String (Quote ext)) (Args spec),
     execEnv = map (\<lambda>(kk, vv). (kk, String (Quote ext) vv)) (Env spec)\<rparr>"

text \<open>The static overrides before the host, and those after it.\<close>

definition overridesBeforeHost :: "KubernetesPatchProviderModel \<Rightarrow> ConfigOverrides \<Rightarrow> ConfigOverrides" where
  "overridesBeforeHost d overrides =
    (let o1 = (case ValueBoolPointer (Insecure d) of None \<Rightarrow> overrides
               | Some v \<Rightarrow> overrides\<lparr>ovInsecureSkipTLSVerify := v\<rparr>);
         o2 = (case ValueStringPointer (TLSServerName d) of None \<Rightarrow> o1
               | Some v \<Rightarrow> o1\<lparr>ovTLSServerName := v\<rparr>);
         o3 = (case ValueStringPointer (ClusterCACertificate d) of None \<Rightarrow> o2
               | Some v \<Rightarrow> o2\<lparr>ovCertificateAuthorityData := v\<rparr>);
         o4 = (case ValueStringPointer (ClientCertificate d) of None \<Rightarrow> o3
               | Some v \<Rightarrow> o3\<lparr>ovClientCertificateData := v\<rparr>)
     in o4)"

definition overridesAfterHost ::
  "Externals \<Rightarrow> KubernetesPatchProviderModel \<Rightarrow> ConfigOverrides \<Rightarrow> ConfigOverrides" where
  "overridesAfterHost ext d overrides =
    (let o1 = (case ValueStringPointer (Username d) of None \<Rightarrow> overrides
               | Some v \<Rightarrow> overrides\<lparr>ovUsername := v\<rparr>);
         o2 = (case ValueStringPointer (Password d) of None \<Rightarrow> o1
               | Some v \<Rightarrow> o1\<lparr>ovPassword := v\<rparr>);
         o3 = (case ValueStringPointer (ClientKey d) of None \<Rightarrow> o2
               | Some v \<Rightarrow> o2\<lparr>ovClientKeyData := v\<rparr>);
         o4 = (case ValueStringPointer (Token d) of None \<Rightarrow> o3
               | Some v \<Rightarrow> o3\<lparr>ovToken := v\<rparr>);
         o5 = (case Exec d of [] \<Rightarrow> o4
               | spec # _ \<Rightarrow> o4\<lparr>ovExec := Some (execConfig ext spec)\<rparr>);
         o6 = (case ValueStringPointer (ProxyURL d) of None \<Rightarrow> o5
               | Some v \<Rightarrow> o5\<lparr>ovProxyURL := v\<rparr>)
     in o6)"

definition hostOverride ::
  "Externals \<Rightarrow> KubernetesPatchProviderModel \<Rightarrow> ConfigOverrides \<Rightarrow> SdkDiagnostic list + ConfigOverrides" where
  "hostOverride ext d overrides =
    (case ValueStringPointer (Host d) of
       None \<Rightarrow> Inr overrides
     | Some v \<Rightarrow>
         (let hasCA = (length (ovCertificateAuthorityData overrides) \<noteq> 0);
              hasCert = (length (ovClientCertificateData overrides) \<noteq> 0);
              defaultTLS = ((hasCA \<or> hasCert) \<and> \<not> ovInsecureSkipTLSVerify overrides)
          in case DefaultServerURL ext v defaultTLS of
               Inl err \<Rightarrow>
                 Inl [\<lparr>sdkSeverity = SeverityError,
                       sdkSummary = ''Failed to parse value for host: '' @ v,
                       sdkDetail = err, sdkAttributePath = [''host'']\<rparr>]
             | Inr host \<Rightarrow> Inr (overrides\<lparr>ovServer := host\<rparr>)))"

definition initializeConfiguration ::
  "Externals \<Rightarrow> KubernetesPatchProviderModel \<Rightarrow> RestConfig option \<times> SdkDiagnostic list" where
  "initializeConfiguration ext d =
    (case loadingRules ext d of
       Inl diags \<Rightarrow> (None, diags)
     | Inr (loader, overrides) \<Rightarrow>
         (case hostOverride ext d (overridesBeforeHost d overrides) of
            Inl diags \<Rightarrow> (None, diags)
          | Inr o1 \<Rightarrow>
              (case ClientConfig ext loader (overridesAfterHost ext d o1) of
                 Inl err \<Rightarrow>
                   (None,
                    [\<lparr>sdkSeverity = SeverityWarning,
                      sdkSummary = ''Provider was supplied an invalid configuration. Further operations likely to fail.'',
                      sdkDetail = err, sdkAttributePath = []\<rparr>])
               | Inr cfg \<Rightarrow> (Some cfg, []))))"

section \<open>Sessions of the framework\<close>

text \<open>
  \<^verbatim>\<open>NewPatchResource\<close> returns a resource with no client. The plugin framework calls
  the provider's \<^verbatim>\<open>Configure\<close> with a fresh response and keeps the
  \<^verbatim>\<open>ResourceData\<close> of that response; it makes a resource and calls its
  \<^verbatim>\<open>Configure\<close> with the kept data as \<^verbatim>\<open>ProviderData\<close>; and it calls
  \<^verbatim>\<open>Create\<close>, \<^verbatim>\<open>Read\<close>, \<^verbatim>\<open>Update\<close> and \<^verbatim>\<open>Delete\<close> on the resource.
  A session is any sequence of these calls, in any order and number; it stops at a panic,
  with the state it had reached.
\<close>

definition NewPatchResource :: PatchResource where
  "NewPatchResource = \<lparr>client = None\<rparr>"

datatype FrameworkCall =
    ConfigureProvider ProviderConfigureRequest
  | NewResource
  | ConfigureResource
  | Operate Op

record Session =
  providerData :: ProviderData
  resource :: PatchResource
  events :: Trace

definition initialSession :: Session where
  "initialSession = \<lparr>providerData = PDNil, resource = NewPatchResource, events = []\<rparr>"

definition freshProviderResponse :: ProviderConfigureResponse where
  "freshProviderResponse = \<lparr>provDiagnostics = [], DataSourceData = PDNil, ResourceData = PDNil\<rparr>"

fun stepSession ::
  "(string \<Rightarrow> string) \<Rightarrow> (RestConfig \<Rightarrow> string + Clientset) \<Rightarrow> Cluster \<Rightarrow>
   FrameworkCall \<Rightarrow> Session \<Rightarrow> go_panic + Session" where
  "stepSession q newForConfig srv (ConfigureProvider req) s =
     (case ProviderConfigure q newForConfig req freshProviderResponse (events s) of
        (presp, tr) \<Rightarrow> Inr (s\<lparr>providerData := ResourceData presp, events := tr\<rparr>))"
| "stepSession q newForConfig srv NewResource s = Inr (s\<lparr>resource := NewPatchResource\<rparr>)"
| "stepSession q newForConfig srv ConfigureResource s =
     (case Configure (resource s) (providerData s) [] of
        (r, ds) \<Rightarrow> Inr (s\<lparr>resource := r\<rparr>))"
| "stepSession q newForConfig srv (Operate op) s =
     (case runOp srv (resource s) op (events s) of
        Inl p \<Rightarrow> Inl p
      | Inr (resp, tr) \<Rightarrow> Inr (s\<lparr>events := tr\<rparr>))"

fun runSession ::
  "(string \<Rightarrow> string) \<Rightarrow> (RestConfig \<Rightarrow> string + Clientset) \<Rightarrow> Cluster \<Rightarrow>
   FrameworkCall list \<Rightarrow> Session \<Rightarrow> Session \<times> go_panic option" where
  "runSession q newForConfig srv [] s = (s, None)"
| "runSession q newForConfig srv (c # cs) s =
     (case stepSession q newForConfig srv c s of
        Inl p \<Rightarrow> (s, Some p)
      | Inr s' \<Rightarrow> runSession q newForConfig srv cs s')"

text \<open>Counting the events and the calls of a session.\<close>

fun isNewForConfig :: "Event \<Rightarrow> bool" where
  "isNewForConfig (NewForConfig cfg) = True"
| "isNewForConfig (ApiPatch cs call) = False"

fun isConfigureProvider :: "FrameworkCall \<Rightarrow> bool" where
  "isConfigureProvider (ConfigureProvider req) = True"
| "isConfigureProvider NewResource = False"
| "isConfigureProvider ConfigureResource = False"
| "isConfigureProvider (Operate op) = False"

fun requestsOf :: "FrameworkCall \<Rightarrow> ProviderConfigureRequest set" where
  "requestsOf (ConfigureProvider req) = {req}"
| "requestsOf NewResource = {}"
| "requestsOf ConfigureResource = {}"
| "requestsOf (Operate op) = {}"

text \<open>
  The invariant of a session: every client set built comes from the configuration of a
  provider \<^verbatim>\<open>Configure\<close> request, every call is made on a client set built before
  it, and the client the resource holds and the one the framework keeps were built in
  the session.
\<close>

definition builtBy :: "(RestConfig \<Rightarrow> string + Clientset) \<Rightarrow> Trace \<Rightarrow> Clientset \<Rightarrow> bool" where
  "builtBy newForConfig tr cs = (\<exists>cfg. NewForConfig cfg \<in> set tr \<and> newForConfig cfg = Inr cs)"

definition callsOnBuilt :: "(RestConfig \<Rightarrow> string + Clientset) \<Rightarrow> Trace \<Rightarrow> bool" where
  "callsOnBuilt newForConfig tr =
     (\<forall>pre cs call post. tr = pre @ ApiPatch cs call # post \<longrightarrow> builtBy newForConfig pre cs)"

definition resolvedFrom ::
  "(string \<Rightarrow> string) \<Rightarrow> ProviderConfigureRequest set \<Rightarrow> Trace \<Rightarrow> bool" where
  "resolvedFrom q R tr =
     (\<forall>cfg. NewForConfig cfg \<in> set tr \<longrightarrow>
        (\<exists>req\<in>R. cfg = configureRestConfig q (snd (configGet req))))"

definition sessionInv ::
  "(string \<Rightarrow> string) \<Rightarrow> (RestConfig \<Rightarrow> string + Clientset) \<Rightarrow>
   ProviderConfigureRequest set \<Rightarrow> Session \<Rightarrow> bool" where
  "sessionInv q newForConfig R s =
     (resolvedFrom q R (events s) \<and> callsOnBuilt newForConfig (events s) \<and>
      (\<forall>cs. client (resource s) = Some cs \<longrightarrow> builtBy newForConfig (events s) cs) \<and>
      (\<forall>c. providerData s = PDClientset c \<longrightarrow>
         (\<exists>cs. c = Some cs \<and> builtBy newForConfig (events s) cs)))"

section \<open>Concrete inputs\<close>

text \<open>
  The resource block of the acceptance test (provider\_test.go) as the plan hands it to
  \<^verbatim>\<open>Create\<close>, its data shortened to the empty JSON patch; the provider block of
  that test with short stand-ins for the address and the PEM data; a resource holding a
  client set; and the call the resource block leads to.
\<close>

definition testAccPatchResourceModel :: PatchResourceModel where
  "testAccPatchResourceModel =
    \<lparr>Namespace = StringValue ''default'', Resource = StringValue ''deployments'',
     Name = StringValue ''opentelemetry-operator-controller-manager'',
     Type = StringValue ''json'', Data = StringValue ''[]'', IdAttr = StringUnknown\<rparr>"

definition testProviderModel :: KubernetesPatchProviderModel where
  "testProviderModel =
    \<lparr>Host = StringValue ''https://10.0.0.1:6443'', Username = StringNull,
     Password = StringNull, Insecure = BoolNull, TLSServerName = StringNull,
     ClientCertificate = StringValue ''CERT'', ClientKey = StringValue ''KEY'',
     ClusterCACertificate = StringValue ''CA'', ConfigPaths = [], ConfigPath = StringNull,
     ConfigContext = StringNull, ConfigContextAuthInfo = StringNull,
     ConfigContextCluster = StringNull, Token = StringNull, ProxyURL = StringNull,
     Exec = []\<rparr>"

definition testClientset :: Clientset where
  "testClientset = Clientset (emptyRestConfig\<lparr>cfgHost := ''https://10.0.0.1:6443''\<rparr>)"

definition testResource :: PatchResource where
  "testResource = \<lparr>client = Some testClientset\<rparr>"

definition testCall :: PatchCall where
  "testCall =
    \<lparr>target = AppsV1 (Deployments ''default''),
     callName = ''opentelemetry-operator-controller-manager'',
     callType = JSONPatchType, callData = ''[]''\<rparr>"

definition emptyResponse :: Response where
  "emptyResponse = \<lparr>Diagnostics = [], State = None\<rparr>"

text \<open>
  Stand-ins for what lies outside the repository: an environment that sets
  \<^verbatim>\<open>KUBE_CONFIG_PATHS\<close> to two paths, a split of that value at the colon, an
  expansion that leaves a path without a tilde as it is, and \<^verbatim>\<open>%q\<close> on a string
  with nothing to escape.
\<close>

definition testExternals :: Externals where
  "testExternals =
    \<lparr>Getenv = (\<lambda>n. if n = ''KUBE_CONFIG_PATHS'' then ''/a:/b'' else []),
     SplitList = (\<lambda>v. if v = ''/a:/b'' then [''/a'', ''/b''] else [v]),
     Expand = (\<lambda>p. Inr p),
     DefaultServerURL = (\<lambda>h tls. Inr h),
     ClientConfig = (\<lambda>loader overrides. Inl ''invalid configuration''),
     Quote = (\<lambda>v. [CHR 0x22] @ v @ [CHR 0x22])\<rparr>"

text \<open>
  A stand-in for \<^verbatim>\<open>kubernetes.NewForConfig\<close>, which takes an empty host (for it the
  library's default) and refuses a host that starts with a double quote; and a session:
  the provider configured from a block with no host, then a fresh configured resource
  for each of \<^verbatim>\<open>Create\<close>, \<^verbatim>\<open>Read\<close>, \<^verbatim>\<open>Update\<close> and \<^verbatim>\<open>Delete\<close>.
\<close>

definition testNewForConfig :: "RestConfig \<Rightarrow> string + Clientset" where
  "testNewForConfig cfg =
    (if cfgHost cfg \<noteq> [] \<and> hd (cfgHost cfg) = CHR 0x22
     then Inl ''host must be a URL or a host:port pair''
     else Inr (Clientset cfg))"

definition testSession :: "FrameworkCall list" where
  "testSession =
    [ConfigureProvider \<lparr>configGet = ([], testProviderModel\<lparr>Host := StringNull\<rparr>)\<rparr>,
     NewResource, ConfigureResource,
     Operate (OpCreate \<lparr>createPlanGet = ([], testAccPatchResourceModel)\<rparr> emptyResponse),
     NewResource, ConfigureResource,
     Operate (OpRead \<lparr>readStateGet = ([], testAccPatchResourceModel)\<rparr> emptyResponse),
     NewResource, ConfigureResource,
     Operate (OpUpdate \<lparr>updatePlanGet = ([], testAccPatchResourceModel)\<rparr> emptyResponse),
     NewResource, ConfigureResource,
     Operate (OpDelete \<lparr>deleteStateGet = ([], testAccPatchResourceModel)\<rparr> emptyResponse)]"

section \<open>The dispatch of patch\<close>

lemma selectClient_resource:
  "selectClient res ns = Some c \<Longrightarrow> restResource c = res"
  unfolding selectClient_def by (auto split: if_splits)

lemma selectClient_dispatched:
  "selectClient res ns \<noteq> None \<longleftrightarrow> res \<in> set (tl resourceOneOf)"
  unfolding selectClient_def resourceOneOf_def by (auto split: if_splits)

lemma patch_no_case:
  "selectClient (ValueString (Resource d)) (ValueString (Namespace d)) = None \<Longrightarrow>
   patch srv r d tr = Inr (None, tr)"
  by (simp add: patch_def selectCall_def)

lemma patch_case:
  "selectClient (ValueString (Resource d)) (ValueString (Namespace d)) = Some c \<Longrightarrow>
   client r = Some cs \<Longrightarrow>
   patch srv r d tr =
     (let call = \<lparr>target = c, callName = ValueString (Name d),
                   callType = patchType (ValueString (Type d)),
                   callData = ValueString (Data d)\<rparr>
      in Inr (srv cs call, tr @ [ApiPatch cs call]))"
  by (simp add: patch_def selectCall_def Let_def)

lemma patch_trace:
  assumes "patch srv r d tr = Inr (err, tr')"
  shows "tr' = tr \<and> err = None \<and> selectCall d = None \<or>
         (\<exists>cs call. tr' = tr @ [ApiPatch cs call] \<and> err = srv cs call \<and>
            client r = Some cs \<and> selectCall d = Some call)"
  using assms by (auto simp: patch_def split: option.splits)

lemma selectCall_target:
  "selectCall d = Some call \<Longrightarrow> restResource (target call) = ValueString (Resource d)"
  by (auto simp: selectCall_def dest: selectClient_resource split: option.splits)

lemma patch_with_client:
  assumes "client r = Some cs"
  shows "\<exists>err calls. patch srv r d tr = Inr (err, tr @ map (ApiPatch cs) calls)"
proof (cases "selectCall d")
  case None
  then have "patch srv r d tr = Inr (None, tr @ map (ApiPatch cs) [])"
    by (simp add: patch_def)
  then show ?thesis by blast
next
  case (Some call)
  with assms have "patch srv r d tr = Inr (srv cs call, tr @ map (ApiPatch cs) [call])"
    by (simp add: patch_def)
  then show ?thesis by blast
qed

text \<open>The concrete resource block leads to the Deployments call.\<close>

lemmas test_defs = testAccPatchResourceModel_def testResource_def testClientset_def testCall_def
  emptyResponse_def emptyRestConfig_def

lemma test_selectCall:
  "selectCall testAccPatchResourceModel = Some testCall"
  "selectCall (testAccPatchResourceModel\<lparr>IdAttr := StringValue ''example-id''\<rparr>) = Some testCall"
  by (simp_all add: test_defs selectCall_def selectClient_def patchType_def)

lemma test_patch:
  "patch srv testResource testAccPatchResourceModel tr =
     Inr (srv testClientset testCall, tr @ [ApiPatch testClientset testCall])"
  "patch srv testResource (testAccPatchResourceModel\<lparr>IdAttr := StringValue ''example-id''\<rparr>) tr =
     Inr (srv testClientset testCall, tr @ [ApiPatch testClientset testCall])"
  by (simp_all add: patch_def test_selectCall) (simp_all add: testResource_def)

text \<open>
  Claim C1 says that every one of the 24 resource kinds the schema admits makes the patch
  operation invoke exactly one API call. The schema admits \<open>bindings\<close>, and the switch
  of \<^verbatim>\<open>patch\<close> has no case for it: for a model whose resource is \<open>bindings\<close> nothing
  is called, whatever the client, and the nil error is returned.
\<close>

theorem patch_bindings_invokes_nothing:
  "''bindings'' \<in> set resourceOneOf \<and>
   patch srv r (d\<lparr>Resource := StringValue ''bindings''\<rparr>) tr = Inr (None, tr)"
  by (simp add: resourceOneOf_def patch_def selectCall_def selectClient_def)

text \<open>
  The other 23 kinds of the schema do lead to exactly one call, with the declared name,
  patch type and body.
\<close>

lemma patch_dispatched_one_call:
  assumes "res \<in> set resourceOneOf" and "res \<noteq> ''bindings''"
    and "Resource d = StringValue res" and "client r = Some cs"
  shows "\<exists>c. restResource c = res \<and>
           patch srv r d tr =
             Inr (srv cs \<lparr>target = c, callName = ValueString (Name d),
                          callType = patchType (ValueString (Type d)),
                          callData = ValueString (Data d)\<rparr>,
                  tr @ [ApiPatch cs \<lparr>target = c, callName = ValueString (Name d),
                          callType = patchType (ValueString (Type d)),
                          callData = ValueString (Data d)\<rparr>])"
proof -
  from assms(1,2) have "res \<in> set (tl resourceOneOf)"
    by (simp add: resourceOneOf_def)
  then obtain c where c: "selectClient res (ValueString (Namespace d)) = Some c"
    using selectClient_dispatched by blast
  with assms(3) have "selectClient (ValueString (Resource d)) (ValueString (Namespace d)) = Some c"
    by simp
  from patch_case [OF this assms(4)] selectClient_resource [OF c] show ?thesis
    by (simp add: Let_def)
qed

text \<open>
  Claim C2: a patch whose type attribute is \<open>json\<close>, \<open>merge\<close> or \<open>strategic\<close> is passed
  to the API call as \<open>JSONPatchType\<close>, \<open>MergePatchType\<close> or \<open>StrategicMergePatchType\<close>
  respectively: every call that \<^verbatim>\<open>patch\<close> makes for such a patch carries that type,
  whatever the resource kind.
\<close>

theorem patch_passes_patch_type:
  assumes "Type d = StringValue t" and "t \<in> set typeOneOf"
    and "patch srv r d tr = Inr (err, tr @ [ApiPatch cs call])"
  shows "(t = ''json'' \<longrightarrow> callType call = JSONPatchType) \<and>
         (t = ''merge'' \<longrightarrow> callType call = MergePatchType) \<and>
         (t = ''strategic'' \<longrightarrow> callType call = StrategicMergePatchType)"
proof -
  from patch_trace [OF assms(3)] have "selectCall d = Some call" by auto
  then have "callType call = patchType (ValueString (Type d))"
    by (auto simp: selectCall_def split: option.splits)
  with assms(1) show ?thesis by (simp add: patchType_def)
qed

theorem patch_passes_patch_type_witness:
  "patch (\<lambda>cs call. None) testResource testAccPatchResourceModel [] =
     Inr (None, [] @ [ApiPatch testClientset testCall]) \<and>
   callType testCall = JSONPatchType \<and>
   patch (\<lambda>cs call. None) testResource
     (testAccPatchResourceModel\<lparr>Type := StringValue ''merge''\<rparr>) [] =
     Inr (None, [] @ [ApiPatch testClientset (testCall\<lparr>callType := MergePatchType\<rparr>)]) \<and>
   callType (testCall\<lparr>callType := MergePatchType\<rparr>) = MergePatchType \<and>
   patch (\<lambda>cs call. None) testResource
     (testAccPatchResourceModel\<lparr>Type := StringValue ''strategic''\<rparr>) [] =
     Inr (None, [] @ [ApiPatch testClientset (testCall\<lparr>callType := StrategicMergePatchType\<rparr>)]) \<and>
   callType (testCall\<lparr>callType := StrategicMergePatchType\<rparr>) = StrategicMergePatchType"
proof -
  have t: "''json'' \<in> set typeOneOf" "''merge'' \<in> set typeOneOf" "''strategic'' \<in> set typeOneOf"
    by (simp_all add: typeOneOf_def)
  have j: "Type testAccPatchResourceModel = StringValue ''json''"
    by (simp add: testAccPatchResourceModel_def)
  have u: "Type (testAccPatchResourceModel\<lparr>Type := StringValue ty\<rparr>) = StringValue ty" for ty
    by simp
  have pj: "patch (\<lambda>cs call. None) testResource testAccPatchResourceModel [] =
     Inr (None, [] @ [ApiPatch testClientset testCall])"
    by (simp add: test_patch)
  have pm: "patch (\<lambda>cs call. None) testResource
     (testAccPatchResourceModel\<lparr>Type := StringValue ''merge''\<rparr>) [] =
     Inr (None, [] @ [ApiPatch testClientset (testCall\<lparr>callType := MergePatchType\<rparr>)])"
    by (simp add: patch_def selectCall_def selectClient_def patchType_def test_defs)
  have ps: "patch (\<lambda>cs call. None) testResource
     (testAccPatchResourceModel\<lparr>Type := StringValue ''strategic''\<rparr>) [] =
     Inr (None, [] @ [ApiPatch testClientset (testCall\<lparr>callType := StrategicMergePatchType\<rparr>)])"
    by (simp add: patch_def selectCall_def selectClient_def patchType_def test_defs)
  from patch_passes_patch_type [OF j t(1) pj] patch_passes_patch_type [OF u t(2) pm]
    patch_passes_patch_type [OF u t(3) ps] pj pm ps
  show ?thesis by simp
qed

text \<open>
  Claim C3: whenever \<^verbatim>\<open>patch\<close> invokes an API call, the typed client called is the
  one whose REST resource is the declared resource-kind string, the call carries the
  declared name and body and is made on the stored client; and every string with a case
  in the switch reaches its own client.
\<close>

theorem invoked_call_matches_resource:
  assumes "patch srv r d tr = Inr (err, tr @ [ApiPatch cs call])"
  shows "restResource (target call) = ValueString (Resource d) \<and>
         callName call = ValueString (Name d) \<and>
         callData call = ValueString (Data d) \<and>
         client r = Some cs \<and> err = srv cs call \<and>
         list_all (\<lambda>res. \<exists>c. selectClient res ns = Some c \<and> restResource c = res)
           (tl resourceOneOf)"
proof -
  from patch_trace [OF assms] have sel: "selectCall d = Some call"
    and c: "client r = Some cs" and e: "err = srv cs call"
    by auto
  from sel have "restResource (target call) = ValueString (Resource d)"
    by (rule selectCall_target)
  moreover from sel have "callName call = ValueString (Name d)" "callData call = ValueString (Data d)"
    by (auto simp: selectCall_def split: option.splits)
  moreover have "\<exists>c. selectClient res ns = Some c \<and> restResource c = res"
    if "res \<in> set (tl resourceOneOf)" for res
  proof -
    from that obtain c where "selectClient res ns = Some c"
      using selectClient_dispatched by blast
    with selectClient_resource show ?thesis by blast
  qed
  ultimately show ?thesis using c e by (simp add: list_all_iff)
qed

theorem invoked_call_matches_resource_witness:
  "patch (\<lambda>cs call. None) testResource testAccPatchResourceModel [] =
     Inr (None, [] @ [ApiPatch testClientset testCall]) \<and>
   restResource (target testCall) = ''deployments'' \<and>
   ValueString (Resource testAccPatchResourceModel) = ''deployments''"
proof -
  have h: "patch (\<lambda>cs call. None) testResource testAccPatchResourceModel [] =
     Inr (None, [] @ [ApiPatch testClientset testCall])"
    by (simp add: test_patch)
  from invoked_call_matches_resource [OF h] h show ?thesis
    by (simp add: testAccPatchResourceModel_def)
qed

text \<open>
  Claim C10: for the cluster-scoped kinds \<open>componentstatuses\<close>, \<open>namespaces\<close>,
  \<open>nodes\<close> and \<open>persistentvolumes\<close> the patch operation does not depend on the
  namespace attribute: two runs that differ only in it make the same call and return the
  same result.
\<close>

theorem cluster_scoped_ignores_namespace:
  assumes "ValueString (Resource d) \<in>
             {''componentstatuses'', ''namespaces'', ''nodes'', ''persistentvolumes''}"
  shows "patch srv r (d\<lparr>Namespace := n1\<rparr>) tr = patch srv r (d\<lparr>Namespace := n2\<rparr>) tr"
  using assms by (auto simp: patch_def selectCall_def selectClient_def)

theorem cluster_scoped_ignores_namespace_witness:
  "patch (\<lambda>cs call. None) testResource
     (testAccPatchResourceModel\<lparr>Resource := StringValue ''nodes'', Namespace := StringValue ''default''\<rparr>) [] =
   patch (\<lambda>cs call. None) testResource
     (testAccPatchResourceModel\<lparr>Resource := StringValue ''nodes'', Namespace := StringValue ''kube-system''\<rparr>) [] \<and>
   patch (\<lambda>cs call. None) testResource
     (testAccPatchResourceModel\<lparr>Resource := StringValue ''nodes'', Namespace := StringValue ''kube-system''\<rparr>) [] =
   Inr (None, [ApiPatch testClientset (testCall\<lparr>target := CoreV1 Nodes\<rparr>)])"
proof -
  let ?d = "testAccPatchResourceModel\<lparr>Resource := StringValue ''nodes''\<rparr>"
  have h: "ValueString (Resource ?d) \<in>
             {''componentstatuses'', ''namespaces'', ''nodes'', ''persistentvolumes''}"
    by simp
  have p: "patch (\<lambda>cs call. None) testResource (?d\<lparr>Namespace := StringValue ''kube-system''\<rparr>) [] =
     Inr (None, [ApiPatch testClientset (testCall\<lparr>target := CoreV1 Nodes\<rparr>)])"
    by (simp add: patch_def selectCall_def selectClient_def patchType_def test_defs)
  from cluster_scoped_ignores_namespace [OF h, of "\<lambda>cs call. None" testResource
      "StringValue ''default''" "[]" "StringValue ''kube-system''"] p
  show ?thesis by simp
qed

section \<open>Create, Update and Delete\<close>

lemma HasError_append: "HasError (xs @ ys) = (HasError xs \<or> HasError ys)"
  by (induction xs) auto

lemma HasError_clientError: "HasError (clientError e ds)"
  by (simp add: clientError_def AddError_def HasError_append)

lemma Create_plan_error:
  "HasError (Diagnostics resp @ fst (createPlanGet req)) \<Longrightarrow>
   Create srv r req resp tr =
     Inr (resp\<lparr>Diagnostics := Diagnostics resp @ fst (createPlanGet req)\<rparr>, tr)"
  by (simp add: Create_def)

lemma Create_patch_error:
  "\<not> HasError (Diagnostics resp @ fst (createPlanGet req)) \<Longrightarrow>
   patch srv r ((snd (createPlanGet req))\<lparr>IdAttr := StringValue ''example-id''\<rparr>) tr = Inr (Some e, tr') \<Longrightarrow>
   Create srv r req resp tr =
     Inr (resp\<lparr>Diagnostics := clientError e (Diagnostics resp @ fst (createPlanGet req))\<rparr>, tr')"
  by (simp add: Create_def)

lemma Create_patch_ok:
  "\<not> HasError (Diagnostics resp @ fst (createPlanGet req)) \<Longrightarrow>
   patch srv r ((snd (createPlanGet req))\<lparr>IdAttr := StringValue ''example-id''\<rparr>) tr = Inr (None, tr') \<Longrightarrow>
   Create srv r req resp tr =
     Inr (resp\<lparr>Diagnostics := Diagnostics resp @ fst (createPlanGet req),
               State := Some ((snd (createPlanGet req))\<lparr>IdAttr := StringValue ''example-id''\<rparr>)\<rparr>, tr')"
  by (simp add: Create_def)

lemma Update_plan_error:
  "HasError (Diagnostics resp @ fst (updatePlanGet req)) \<Longrightarrow>
   Update srv r req resp tr =
     Inr (resp\<lparr>Diagnostics := Diagnostics resp @ fst (updatePlanGet req)\<rparr>, tr)"
  by (simp add: Update_def)

lemma Update_patch_error:
  "\<not> HasError (Diagnostics resp @ fst (updatePlanGet req)) \<Longrightarrow>
   patch srv r (snd (updatePlanGet req)) tr = Inr (Some e, tr') \<Longrightarrow>
   Update srv r req resp tr =
     Inr (resp\<lparr>Diagnostics := clientError e (Diagnostics resp @ fst (updatePlanGet req))\<rparr>, tr')"
  by (simp add: Update_def)

lemma Update_patch_ok:
  "\<not> HasError (Diagnostics resp @ fst (updatePlanGet req)) \<Longrightarrow>
   patch srv r (snd (updatePlanGet req)) tr = Inr (None, tr') \<Longrightarrow>
   Update srv r req resp tr =
     Inr (resp\<lparr>Diagnostics := Diagnostics resp @ fst (updatePlanGet req),
               State := Some (snd (updatePlanGet req))\<rparr>, tr')"
  by (simp add: Update_def)

text \<open>
  With \<open>bindings\<close> as the resource, \<^verbatim>\<open>Create\<close> writes the state although nothing
  was called.
\<close>

lemma Create_bindings_writes_state:
  "Create srv r \<lparr>createPlanGet = ([], plan\<lparr>Resource := StringValue ''bindings''\<rparr>)\<rparr>
     emptyResponse tr =
   Inr (\<lparr>Diagnostics = [],
         State = Some (plan\<lparr>Resource := StringValue ''bindings'',
                            IdAttr := StringValue ''example-id''\<rparr>)\<rparr>, tr)"
  by (simp add: Create_def emptyResponse_def patch_def selectCall_def selectClient_def)

text \<open>
  Claim C4: on \<^verbatim>\<open>Create\<close> and on \<^verbatim>\<open>Update\<close>, once the plan is read without an
  error diagnostic, an error of the patch call adds the error diagnostic
  \<open>Client Error\<close> and leaves the state of the response as it was; success adds no
  diagnostic and saves the planned data to the state (on \<^verbatim>\<open>Create\<close> with the id
  filled in).
\<close>

theorem create_update_surface_patch_result:
  assumes "\<not> HasError (Diagnostics resp @ ds)"
    and "patch srv r (plan\<lparr>IdAttr := StringValue ''example-id''\<rparr>) tr = Inr (errC, trC)"
    and "patch srv r plan tr = Inr (errU, trU)"
  shows "(\<exists>respC. Create srv r \<lparr>createPlanGet = (ds, plan)\<rparr> resp tr = Inr (respC, trC) \<and>
            (\<forall>e. errC = Some e \<longrightarrow>
               Diagnostics respC = clientError e (Diagnostics resp @ ds) \<and>
               HasError (Diagnostics respC) \<and> State respC = State resp) \<and>
            (errC = None \<longrightarrow>
               Diagnostics respC = Diagnostics resp @ ds \<and>
               State respC = Some (plan\<lparr>IdAttr := StringValue ''example-id''\<rparr>))) \<and>
         (\<exists>respU. Update srv r \<lparr>updatePlanGet = (ds, plan)\<rparr> resp tr = Inr (respU, trU) \<and>
            (\<forall>e. errU = Some e \<longrightarrow>
               Diagnostics respU = clientError e (Diagnostics resp @ ds) \<and>
               HasError (Diagnostics respU) \<and> State respU = State resp) \<and>
            (errU = None \<longrightarrow>
               Diagnostics respU = Diagnostics resp @ ds \<and> State respU = Some plan))"
proof (intro conjI)
  show "\<exists>respC. Create srv r \<lparr>createPlanGet = (ds, plan)\<rparr> resp tr = Inr (respC, trC) \<and>
          (\<forall>e. errC = Some e \<longrightarrow>
             Diagnostics respC = clientError e (Diagnostics resp @ ds) \<and>
             HasError (Diagnostics respC) \<and> State respC = State resp) \<and>
          (errC = None \<longrightarrow>
             Diagnostics respC = Diagnostics resp @ ds \<and>
             State respC = Some (plan\<lparr>IdAttr := StringValue ''example-id''\<rparr>))"
  proof (cases errC)
    case None
    with assms Create_patch_ok [of resp "\<lparr>createPlanGet = (ds, plan)\<rparr>" srv r tr trC]
    show ?thesis by simp
  next
    case (Some e)
    with assms Create_patch_error [of resp "\<lparr>createPlanGet = (ds, plan)\<rparr>" srv r tr e trC]
    show ?thesis by (simp add: HasError_clientError)
  qed
  show "\<exists>respU. Update srv r \<lparr>updatePlanGet = (ds, plan)\<rparr> resp tr = Inr (respU, trU) \<and>
          (\<forall>e. errU = Some e \<longrightarrow>
             Diagnostics respU = clientError e (Diagnostics resp @ ds) \<and>
             HasError (Diagnostics respU) \<and> State respU = State resp) \<and>
          (errU = None \<longrightarrow>
             Diagnostics respU = Diagnostics resp @ ds \<and> State respU = Some plan)"
  proof (cases errU)
    case None
    with assms Update_patch_ok [of resp "\<lparr>updatePlanGet = (ds, plan)\<rparr>" srv r tr trU]
    show ?thesis by simp
  next
    case (Some e)
    with assms Update_patch_error [of resp "\<lparr>updatePlanGet = (ds, plan)\<rparr>" srv r tr e trU]
    show ?thesis by (simp add: HasError_clientError)
  qed
qed

theorem create_update_surface_patch_result_witness:
  "(\<exists>respC. Create (\<lambda>cs call. Some ''refused'') testResource
        \<lparr>createPlanGet = ([], testAccPatchResourceModel)\<rparr> emptyResponse [] =
        Inr (respC, [ApiPatch testClientset testCall]) \<and>
      HasError (Diagnostics respC) \<and> State respC = None) \<and>
   (\<exists>respU. Update (\<lambda>cs call. Some ''refused'') testResource
        \<lparr>updatePlanGet = ([], testAccPatchResourceModel)\<rparr> emptyResponse [] =
        Inr (respU, [ApiPatch testClientset testCall]) \<and>
      HasError (Diagnostics respU) \<and> State respU = None) \<and>
   (\<exists>respC. Create (\<lambda>cs call. None) testResource
        \<lparr>createPlanGet = ([], testAccPatchResourceModel)\<rparr> emptyResponse [] =
        Inr (respC, [ApiPatch testClientset testCall]) \<and>
      Diagnostics respC = [] \<and>
      State respC = Some (testAccPatchResourceModel\<lparr>IdAttr := StringValue ''example-id''\<rparr>)) \<and>
   (\<exists>respU. Update (\<lambda>cs call. None) testResource
        \<lparr>updatePlanGet = ([], testAccPatchResourceModel)\<rparr> emptyResponse [] =
        Inr (respU, [ApiPatch testClientset testCall]) \<and>
      Diagnostics respU = [] \<and> State respU = Some testAccPatchResourceModel)"
proof -
  have n: "\<not> HasError (Diagnostics emptyResponse @ [])" by (simp add: emptyResponse_def)
  have c: "patch srv testResource (testAccPatchResourceModel\<lparr>IdAttr := StringValue ''example-id''\<rparr>) [] =
     Inr (srv testClientset testCall, [ApiPatch testClientset testCall])" for srv
    by (simp add: test_patch)
  have u: "patch srv testResource testAccPatchResourceModel [] =
     Inr (srv testClientset testCall, [ApiPatch testClientset testCall])" for srv
    by (simp add: test_patch)
  from create_update_surface_patch_result [OF n c u, of "\<lambda>cs call. Some ''refused''"]
       create_update_surface_patch_result [OF n c u, of "\<lambda>cs call. None"]
  show ?thesis by (auto simp: emptyResponse_def)
qed

text \<open>
  Claim C8: for every plan that is read without an error diagnostic and whose patch
  returns no error, \<^verbatim>\<open>Create\<close> writes a state whose id is the constant
  \<open>example-id\<close>, whatever the namespace, resource, name, type and data, which are
  written as planned.
\<close>

theorem create_writes_example_id:
  assumes "\<not> HasError (Diagnostics resp @ fst (createPlanGet req))"
    and "patch srv r ((snd (createPlanGet req))\<lparr>IdAttr := StringValue ''example-id''\<rparr>) tr = Inr (None, tr')"
  shows "\<exists>resp' d. Create srv r req resp tr = Inr (resp', tr') \<and> State resp' = Some d \<and>
           IdAttr d = StringValue ''example-id'' \<and>
           Namespace d = Namespace (snd (createPlanGet req)) \<and>
           Resource d = Resource (snd (createPlanGet req)) \<and>
           Name d = Name (snd (createPlanGet req)) \<and>
           Type d = Type (snd (createPlanGet req)) \<and>
           Data d = Data (snd (createPlanGet req))"
  using Create_patch_ok [OF assms] by simp

theorem create_writes_example_id_witness:
  "\<exists>resp' d. Create (\<lambda>cs call. None) testResource
        \<lparr>createPlanGet = ([], testAccPatchResourceModel)\<rparr> emptyResponse [] =
        Inr (resp', [ApiPatch testClientset testCall]) \<and>
      State resp' = Some d \<and> IdAttr d = StringValue ''example-id'' \<and>
      Resource d = StringValue ''deployments''"
proof -
  let ?req = "\<lparr>createPlanGet = ([], testAccPatchResourceModel)\<rparr>"
  have n: "\<not> HasError (Diagnostics emptyResponse @ fst (createPlanGet ?req))"
    by (simp add: emptyResponse_def)
  have c: "patch (\<lambda>cs call. None) testResource
      ((snd (createPlanGet ?req))\<lparr>IdAttr := StringValue ''example-id''\<rparr>) [] =
     Inr (None, [ApiPatch testClientset testCall])"
    by (simp add: test_patch)
  from create_writes_example_id [OF n c] obtain resp' d where
    "Create (\<lambda>cs call. None) testResource ?req emptyResponse [] =
       Inr (resp', [ApiPatch testClientset testCall])"
    "State resp' = Some d" "IdAttr d = StringValue ''example-id''"
    "Resource d = Resource (snd (createPlanGet ?req))"
    by blast
  moreover have "Resource (snd (createPlanGet ?req)) = StringValue ''deployments''"
    by (simp add: testAccPatchResourceModel_def)
  ultimately show ?thesis by auto
qed

text \<open>
  Claim C9: \<^verbatim>\<open>Delete\<close> makes no call (the trace is as before, so the patched object
  is left as it is), leaves the state of the response alone, and its diagnostics are
  those handed in followed by those of reading the prior state: it adds none of its own.
\<close>

theorem delete_calls_nothing:
  "snd (Delete r req resp tr) = tr \<and>
   State (fst (Delete r req resp tr)) = State resp \<and>
   Diagnostics (fst (Delete r req resp tr)) = Diagnostics resp @ fst (deleteStateGet req)"
  by (simp add: Delete_def)

section \<open>The client of the resource\<close>

lemma Create_with_client:
  assumes "client r = Some cs"
  shows "\<exists>resp' calls. Create srv r req resp tr = Inr (resp', tr @ map (ApiPatch cs) calls)"
proof (cases "HasError (Diagnostics resp @ fst (createPlanGet req))")
  case True
  from Create_plan_error [OF this]
  have "Create srv r req resp tr =
      Inr (resp\<lparr>Diagnostics := Diagnostics resp @ fst (createPlanGet req)\<rparr>, tr @ map (ApiPatch cs) [])"
    by simp
  then show ?thesis by blast
next
  case False
  from patch_with_client [OF assms] obtain err calls where
    p: "patch srv r ((snd (createPlanGet req))\<lparr>IdAttr := StringValue ''example-id''\<rparr>) tr
          = Inr (err, tr @ map (ApiPatch cs) calls)"
    by blast
  show ?thesis
  proof (cases err)
    case None
    with Create_patch_ok [OF False] p show ?thesis by blast
  next
    case (Some e)
    with Create_patch_error [OF False] p show ?thesis by blast
  qed
qed

lemma Update_with_client:
  assumes "client r = Some cs"
  shows "\<exists>resp' calls. Update srv r req resp tr = Inr (resp', tr @ map (ApiPatch cs) calls)"
proof (cases "HasError (Diagnostics resp @ fst (updatePlanGet req))")
  case True
  from Update_plan_error [OF this]
  have "Update srv r req resp tr =
      Inr (resp\<lparr>Diagnostics := Diagnostics resp @ fst (updatePlanGet req)\<rparr>, tr @ map (ApiPatch cs) [])"
    by simp
  then show ?thesis by blast
next
  case False
  from patch_with_client [OF assms] obtain err calls where
    p: "patch srv r (snd (updatePlanGet req)) tr = Inr (err, tr @ map (ApiPatch cs) calls)"
    by blast
  show ?thesis
  proof (cases err)
    case None
    with Update_patch_ok [OF False] p show ?thesis by blast
  next
    case (Some e)
    with Update_patch_error [OF False] p show ?thesis by blast
  qed
qed

lemma runOp_with_client:
  assumes "client r = Some cs"
  shows "\<exists>resp' calls. runOp srv r op tr = Inr (resp', tr @ map (ApiPatch cs) calls)"
proof (cases op)
  case (OpCreate req resp)
  with Create_with_client [OF assms] show ?thesis by simp
next
  case (OpRead req resp)
  then have "runOp srv r op tr = Inr (fst (Read r req resp tr), tr @ map (ApiPatch cs) [])"
    by (simp add: Read_def Let_def)
  then show ?thesis by blast
next
  case (OpUpdate req resp)
  with Update_with_client [OF assms] show ?thesis by simp
next
  case (OpDelete req resp)
  then have "runOp srv r op tr = Inr (fst (Delete r req resp tr), tr @ map (ApiPatch cs) [])"
    by (simp add: Delete_def Let_def)
  then show ?thesis by blast
qed

lemma runOps_with_client:
  assumes "client r = Some cs"
  shows "\<exists>calls. runOps srv r ops tr = Inr (tr @ map (ApiPatch cs) calls)"
proof (induction ops arbitrary: tr)
  case Nil
  have "runOps srv r [] tr = Inr (tr @ map (ApiPatch cs) [])" by simp
  then show ?case by blast
next
  case (Cons op ops)
  from runOp_with_client [OF assms] obtain resp' c1 where
    s: "runOp srv r op tr = Inr (resp', tr @ map (ApiPatch cs) c1)" by blast
  from Cons.IH obtain c2 where
    t: "runOps srv r ops (tr @ map (ApiPatch cs) c1) = Inr ((tr @ map (ApiPatch cs) c1) @ map (ApiPatch cs) c2)"
    by blast
  from s t have "runOps srv r (op # ops) tr = Inr (tr @ map (ApiPatch cs) (c1 @ c2))"
    by simp
  then show ?case by blast
qed

lemma ProviderConfigure_ok:
  assumes "\<not> HasError (provDiagnostics resp @ fst (configGet req))"
    and "newForConfig (configureRestConfig q (snd (configGet req))) = Inr cs"
  shows "ProviderConfigure q newForConfig req resp tr =
           (resp\<lparr>provDiagnostics := provDiagnostics resp @ fst (configGet req),
                  DataSourceData := PDOther ''*http.Client'',
                  ResourceData := PDClientset (Some cs)\<rparr>,
            tr @ [NewForConfig (configureRestConfig q (snd (configGet req)))])"
  using assms by (simp add: ProviderConfigure_def Let_def)

text \<open>
  One provider \<^verbatim>\<open>Configure\<close> that succeeds, the resource's \<^verbatim>\<open>Configure\<close> on its
  \<^verbatim>\<open>ResourceData\<close>, and any operations after it: the operations run to their end
  and every call is made on the client built at the start.
\<close>

lemma configured_resource_reuses_client:
  assumes "\<not> HasError (provDiagnostics presp @ fst (configGet preq))"
    and "newForConfig (configureRestConfig q (snd (configGet preq))) = Inr cs"
  shows "\<exists>presp' r' calls.
           ProviderConfigure q newForConfig preq presp [] =
             (presp', [NewForConfig (configureRestConfig q (snd (configGet preq)))]) \<and>
           ResourceData presp' = PDClientset (Some cs) \<and>
           Configure r (ResourceData presp') ds = (r', ds) \<and>
           client r' = Some cs \<and>
           runOps srv r' ops [NewForConfig (configureRestConfig q (snd (configGet preq)))] =
             Inr (NewForConfig (configureRestConfig q (snd (configGet preq))) # map (ApiPatch cs) calls)"
proof -
  let ?cfg = "configureRestConfig q (snd (configGet preq))"
  let ?presp = "presp\<lparr>provDiagnostics := provDiagnostics presp @ fst (configGet preq),
                  DataSourceData := PDOther ''*http.Client'',
                  ResourceData := PDClientset (Some cs)\<rparr>"
  let ?r = "r\<lparr>client := Some cs\<rparr>"
  have 1: "ProviderConfigure q newForConfig preq presp [] = (?presp, [NewForConfig ?cfg])"
    using assms ProviderConfigure_ok [of presp preq newForConfig q cs "[]"] by simp
  have 2: "Configure r (ResourceData ?presp) ds = (?r, ds)"
    by (simp add: Configure_def)
  have 3: "client ?r = Some cs" by simp
  from runOps_with_client [OF 3] obtain calls where
    4: "runOps srv ?r ops [NewForConfig ?cfg] = Inr ([NewForConfig ?cfg] @ map (ApiPatch cs) calls)"
    by blast
  from 1 2 3 4 show ?thesis by (intro exI [of _ ?presp] exI [of _ ?r] exI [of _ calls]) simp
qed

subsection \<open>The invariant of a session\<close>

lemma builtBy_append: "builtBy nfc tr cs \<Longrightarrow> builtBy nfc (tr @ es) cs"
  by (auto simp: builtBy_def)

lemma callsOnBuilt_Nil: "callsOnBuilt nfc []"
  by (simp add: callsOnBuilt_def)

lemma callsOnBuilt_snoc_new:
  assumes "callsOnBuilt nfc tr"
  shows "callsOnBuilt nfc (tr @ [NewForConfig cfg])"
  unfolding callsOnBuilt_def
proof (intro allI impI)
  fix pre cs call post
  assume e: "tr @ [NewForConfig cfg] = pre @ ApiPatch cs call # post"
  show "builtBy nfc pre cs"
  proof (cases post rule: rev_cases)
    case Nil
    with e show ?thesis by simp
  next
    case (snoc post' x)
    with e have "tr = pre @ ApiPatch cs call # post'" by simp
    with assms show ?thesis by (simp add: callsOnBuilt_def)
  qed
qed

lemma callsOnBuilt_snoc_patch:
  assumes "callsOnBuilt nfc tr" and "builtBy nfc tr cs"
  shows "callsOnBuilt nfc (tr @ [ApiPatch cs call])"
  unfolding callsOnBuilt_def
proof (intro allI impI)
  fix pre cs' call' post
  assume e: "tr @ [ApiPatch cs call] = pre @ ApiPatch cs' call' # post"
  show "builtBy nfc pre cs'"
  proof (cases post rule: rev_cases)
    case Nil
    with e have "pre = tr" "cs' = cs" by simp_all
    with assms(2) show ?thesis by simp
  next
    case (snoc post' x)
    with e have "tr = pre @ ApiPatch cs' call' # post'" by simp
    with assms(1) show ?thesis by (simp add: callsOnBuilt_def)
  qed
qed

lemma ProviderConfigure_fresh:
  assumes "ProviderConfigure q nfc req freshProviderResponse tr = (presp, tr')"
  shows "(tr' = tr \<and> ResourceData presp = PDNil) \<or>
         (tr' = tr @ [NewForConfig (configureRestConfig q (snd (configGet req)))] \<and>
            (ResourceData presp = PDNil \<or>
             (\<exists>cs. nfc (configureRestConfig q (snd (configGet req))) = Inr cs \<and>
                   ResourceData presp = PDClientset (Some cs))))"
  using assms
  by (auto simp: ProviderConfigure_def freshProviderResponse_def Let_def split: if_splits sum.splits)

lemma Create_trace:
  assumes "Create srv r req resp tr = Inr (resp', tr')"
  shows "tr' = tr \<or> (\<exists>cs call. client r = Some cs \<and> tr' = tr @ [ApiPatch cs call])"
proof (cases "HasError (Diagnostics resp @ fst (createPlanGet req))")
  case True
  with assms show ?thesis by (simp add: Create_def)
next
  case False
  with assms obtain err where
    "patch srv r ((snd (createPlanGet req))\<lparr>IdAttr := StringValue ''example-id''\<rparr>) tr = Inr (err, tr')"
    by (auto simp: Create_def Let_def split: sum.splits option.splits)
  from patch_trace [OF this] show ?thesis by blast
qed

lemma Update_trace:
  assumes "Update srv r req resp tr = Inr (resp', tr')"
  shows "tr' = tr \<or> (\<exists>cs call. client r = Some cs \<and> tr' = tr @ [ApiPatch cs call])"
proof (cases "HasError (Diagnostics resp @ fst (updatePlanGet req))")
  case True
  with assms show ?thesis by (simp add: Update_def)
next
  case False
  with assms obtain err where
    "patch srv r (snd (updatePlanGet req)) tr = Inr (err, tr')"
    by (auto simp: Update_def Let_def split: sum.splits option.splits)
  from patch_trace [OF this] show ?thesis by blast
qed

lemma runOp_trace:
  assumes "runOp srv r op tr = Inr (resp', tr')"
  shows "tr' = tr \<or> (\<exists>cs call. client r = Some cs \<and> tr' = tr @ [ApiPatch cs call])"
proof (cases op)
  case (OpCreate req resp)
  with assms Create_trace show ?thesis by simp
next
  case (OpRead req resp)
  with assms show ?thesis by (auto simp: Read_def Let_def split: if_splits)
next
  case (OpUpdate req resp)
  with assms Update_trace show ?thesis by simp
next
  case (OpDelete req resp)
  with assms show ?thesis by (auto simp: Delete_def Let_def split: if_splits)
qed

lemma Configure_client:
  "Configure r pd ds = (r', ds') \<Longrightarrow> client r' = client r \<or> pd = PDClientset (client r')"
  by (auto simp: Configure_def split: ProviderData.splits)

lemma resolvedFrom_mono: "resolvedFrom q R tr \<Longrightarrow> R \<subseteq> R' \<Longrightarrow> resolvedFrom q R' tr"
  unfolding resolvedFrom_def by blast

lemma sessionInv_mono: "sessionInv q nfc R s \<Longrightarrow> R \<subseteq> R' \<Longrightarrow> sessionInv q nfc R' s"
  unfolding sessionInv_def using resolvedFrom_mono by blast

lemma sessionInv_initial: "sessionInv q nfc {} initialSession"
  by (simp add: sessionInv_def initialSession_def NewPatchResource_def resolvedFrom_def
      callsOnBuilt_Nil)

lemma count_new_snoc:
  "length (filter isNewForConfig (tr @ [NewForConfig cfg])) = Suc (length (filter isNewForConfig tr))"
  "length (filter isNewForConfig (tr @ [ApiPatch cs call])) = length (filter isNewForConfig tr)"
  by simp_all

lemma step_ConfigureProvider:
  assumes inv: "sessionInv q nfc R s"
    and st: "stepSession q nfc srv (ConfigureProvider req) s = Inr s'"
  shows "sessionInv q nfc (insert req R) s' \<and>
         length (filter isNewForConfig (events s')) \<le> Suc (length (filter isNewForConfig (events s)))"
proof -
  obtain presp tr where pc: "ProviderConfigure q nfc req freshProviderResponse (events s) = (presp, tr)"
    by (cases "ProviderConfigure q nfc req freshProviderResponse (events s)")
  with st have s': "s' = s\<lparr>providerData := ResourceData presp, events := tr\<rparr>" by simp
  let ?cfg = "configureRestConfig q (snd (configGet req))"
  from inv have rf: "resolvedFrom q R (events s)" and cb: "callsOnBuilt nfc (events s)"
    and cl: "\<And>cs. client (resource s) = Some cs \<Longrightarrow> builtBy nfc (events s) cs"
    by (simp_all add: sessionInv_def)
  from ProviderConfigure_fresh [OF pc] consider
      (same) "tr = events s" "ResourceData presp = PDNil"
    | (failed) "tr = events s @ [NewForConfig ?cfg]" "ResourceData presp = PDNil"
    | (built) cs where "tr = events s @ [NewForConfig ?cfg]" "nfc ?cfg = Inr cs"
        "ResourceData presp = PDClientset (Some cs)"
    by blast
  then show ?thesis
  proof cases
    case same
    with s' rf cb cl show ?thesis
      by (auto simp: sessionInv_def intro: resolvedFrom_mono)
  next
    case failed
    from rf have "resolvedFrom q (insert req R) (events s @ [NewForConfig ?cfg])"
      unfolding resolvedFrom_def by auto
    with s' failed cb cl show ?thesis
      by (auto simp: sessionInv_def intro: callsOnBuilt_snoc_new builtBy_append)
  next
    case built
    from rf have "resolvedFrom q (insert req R) (events s @ [NewForConfig ?cfg])"
      unfolding resolvedFrom_def by auto
    moreover from built(2) have "builtBy nfc (events s @ [NewForConfig ?cfg]) cs"
      by (auto simp: builtBy_def)
    ultimately show ?thesis using s' built cb cl
      by (auto simp: sessionInv_def intro: callsOnBuilt_snoc_new builtBy_append)
  qed
qed

lemma step_NewResource:
  assumes "sessionInv q nfc R s" and "stepSession q nfc srv NewResource s = Inr s'"
  shows "sessionInv q nfc R s' \<and> events s' = events s"
  using assms by (auto simp: sessionInv_def NewPatchResource_def)

lemma step_ConfigureResource:
  assumes inv: "sessionInv q nfc R s" and st: "stepSession q nfc srv ConfigureResource s = Inr s'"
  shows "sessionInv q nfc R s' \<and> events s' = events s"
proof -
  obtain r ds where c: "Configure (resource s) (providerData s) [] = (r, ds)"
    by (cases "Configure (resource s) (providerData s) []")
  with st have s': "s' = s\<lparr>resource := r\<rparr>" by simp
  from Configure_client [OF c] have "client r = client (resource s) \<or> providerData s = PDClientset (client r)" .
  with inv s' show ?thesis by (auto simp: sessionInv_def)
qed

lemma step_Operate:
  assumes inv: "sessionInv q nfc R s" and st: "stepSession q nfc srv (Operate op) s = Inr s'"
  shows "sessionInv q nfc R s' \<and>
         length (filter isNewForConfig (events s')) = length (filter isNewForConfig (events s))"
proof -
  from st obtain resp tr where ro: "runOp srv (resource s) op (events s) = Inr (resp, tr)"
    and s': "s' = s\<lparr>events := tr\<rparr>"
    by (auto split: sum.splits)
  from runOp_trace [OF ro] consider (same) "tr = events s"
    | (call) cs call where "client (resource s) = Some cs" "tr = events s @ [ApiPatch cs call]"
    by blast
  then show ?thesis
  proof cases
    case same
    with inv s' show ?thesis by (simp add: sessionInv_def)
  next
    case call
    from inv call(1) have b: "builtBy nfc (events s) cs" by (simp add: sessionInv_def)
    from inv have "resolvedFrom q R (events s @ [ApiPatch cs call])"
      by (auto simp: sessionInv_def resolvedFrom_def)
    moreover from inv b have "callsOnBuilt nfc (events s @ [ApiPatch cs call])"
      by (simp add: sessionInv_def callsOnBuilt_snoc_patch)
    ultimately show ?thesis using inv s' call
      by (auto simp: sessionInv_def intro: builtBy_append)
  qed
qed

lemma step_session:
  assumes "sessionInv q nfc R s" and "stepSession q nfc srv c s = Inr s'"
  shows "sessionInv q nfc (R \<union> requestsOf c) s' \<and>
         length (filter isNewForConfig (events s')) \<le>
           length (filter isNewForConfig (events s)) + length (filter isConfigureProvider [c])"
proof (cases c)
  case (ConfigureProvider req)
  with step_ConfigureProvider [of q nfc R s srv req s'] assms show ?thesis by simp
next
  case NewResource
  with step_NewResource [of q nfc R s srv s'] assms show ?thesis by simp
next
  case ConfigureResource
  with step_ConfigureResource [of q nfc R s srv s'] assms show ?thesis by simp
next
  case (Operate op)
  with step_Operate [of q nfc R s srv op s'] assms show ?thesis by simp
qed

lemma run_session:
  assumes "sessionInv q nfc R s" and "runSession q nfc srv calls s = (s', p)"
  shows "sessionInv q nfc (R \<union> (\<Union>c\<in>set calls. requestsOf c)) s' \<and>
         length (filter isNewForConfig (events s')) \<le>
           length (filter isNewForConfig (events s)) + length (filter isConfigureProvider calls)"
  using assms
proof (induction calls arbitrary: R s)
  case Nil
  then show ?case by simp
next
  case (Cons c calls)
  show ?case
  proof (cases "stepSession q nfc srv c s")
    case (Inl pn)
    with Cons.prems have "s' = s" by simp
    with Cons.prems(1) show ?thesis
      by (auto intro: sessionInv_mono)
  next
    case (Inr s1)
    from step_session [OF Cons.prems(1) Inr]
    have i1: "sessionInv q nfc (R \<union> requestsOf c) s1"
      and n1: "length (filter isNewForConfig (events s1)) \<le>
           length (filter isNewForConfig (events s)) + length (filter isConfigureProvider [c])"
      by simp_all
    from Cons.prems(2) Inr have r: "runSession q nfc srv calls s1 = (s', p)" by simp
    from Cons.IH [OF i1 r]
    have i2: "sessionInv q nfc (R \<union> requestsOf c \<union> (\<Union>c\<in>set calls. requestsOf c)) s'"
      and n2: "length (filter isNewForConfig (events s')) \<le>
           length (filter isNewForConfig (events s1)) + length (filter isConfigureProvider calls)"
      by simp_all
    have "R \<union> requestsOf c \<union> (\<Union>c\<in>set calls. requestsOf c) = R \<union> (\<Union>c\<in>set (c # calls). requestsOf c)"
      by auto
    with i2 have "sessionInv q nfc (R \<union> (\<Union>c\<in>set (c # calls). requestsOf c)) s'" by simp
    moreover from n1 n2 have "length (filter isNewForConfig (events s')) \<le>
           length (filter isNewForConfig (events s)) + length (filter isConfigureProvider (c # calls))"
      by (cases "isConfigureProvider c") simp_all
    ultimately show ?thesis by simp
  qed
qed

lemma requestsOf_calls:
  "req \<in> (\<Union>c\<in>set calls. requestsOf c) \<longleftrightarrow> ConfigureProvider req \<in> set calls"
proof
  assume "req \<in> (\<Union>c\<in>set calls. requestsOf c)"
  then obtain c where c: "c \<in> set calls" and r: "req \<in> requestsOf c" by blast
  from r have "c = ConfigureProvider req" by (cases c) simp_all
  with c show "ConfigureProvider req \<in> set calls" by simp
next
  assume "ConfigureProvider req \<in> set calls"
  then show "req \<in> (\<Union>c\<in>set calls. requestsOf c)" by force
qed

lemma filter_at_most_one:
  "length (filter P xs) \<le> 1 \<Longrightarrow> x \<in> set xs \<Longrightarrow> y \<in> set xs \<Longrightarrow> P x \<Longrightarrow> P y \<Longrightarrow> x = y"
proof (induction xs)
  case Nil
  then show ?case by simp
next
  case (Cons a xs)
  show ?case
  proof (cases "P a")
    case True
    with Cons.prems(1) have "filter P xs = []" by simp
    then have "\<And>z. z \<in> set xs \<Longrightarrow> \<not> P z" by (simp add: filter_empty_conv)
    with Cons.prems show ?thesis by auto
  next
    case False
    with Cons show ?thesis by auto
  qed
qed

lemma run_panic_no_client:
  "runSession q nfc srv calls s = (s', Some pn) \<Longrightarrow> client (resource s') = None"
proof (induction calls arbitrary: s)
  case Nil
  then show ?case by simp
next
  case (Cons c calls)
  show ?case
  proof (cases "stepSession q nfc srv c s")
    case (Inl x)
    with Cons.prems have s': "s' = s" by simp
    show ?thesis
    proof (cases "client (resource s)")
      case None
      with s' show ?thesis by simp
    next
      case (Some cs)
      from Inl obtain op where c: "c = Operate op"
        by (cases c) (auto split: prod.splits)
      from runOp_with_client [OF Some, of srv op "events s"] Inl c show ?thesis
        by auto
    qed
  next
    case (Inr s1)
    with Cons show ?thesis by simp
  qed
qed

lemma test_session_run:
  "runSession (Quote testExternals) testNewForConfig (\<lambda>cs call. None) testSession initialSession =
     (\<lparr>providerData = PDClientset (Some (Clientset emptyRestConfig)),
       resource = \<lparr>client = Some (Clientset emptyRestConfig)\<rparr>,
       events = [NewForConfig emptyRestConfig,
                 ApiPatch (Clientset emptyRestConfig) testCall,
                 ApiPatch (Clientset emptyRestConfig) testCall]\<rparr>, None)"
  by (simp add: testSession_def initialSession_def NewPatchResource_def ProviderConfigure_def
      freshProviderResponse_def configureRestConfig_def testProviderModel_def testNewForConfig_def
      emptyRestConfig_def Configure_def Create_def Update_def Read_def Delete_def patch_def
      test_selectCall emptyResponse_def Let_def)

lemma test_session_refused:
  "runSession (Quote testExternals) testNewForConfig (\<lambda>cs call. None)
       [ConfigureProvider \<lparr>configGet = ([], testProviderModel)\<rparr>] initialSession =
     (\<lparr>providerData = PDNil, resource = \<lparr>client = None\<rparr>,
       events = [NewForConfig (emptyRestConfig\<lparr>cfgHost :=
                   [CHR 0x22] @ ''https://10.0.0.1:6443'' @ [CHR 0x22]\<rparr>)]\<rparr>, None)"
  by (simp add: initialSession_def NewPatchResource_def ProviderConfigure_def
      freshProviderResponse_def configureRestConfig_def testProviderModel_def testNewForConfig_def
      emptyRestConfig_def testExternals_def Let_def AddError_def)

text \<open>
  Claim C6: in any session that starts with no client, client sets are built only by the
  provider's \<^verbatim>\<open>Configure\<close>, at most one for each of its calls and each from the
  configuration resolved from that call's provider block (the host of which is the
  rendering of the declared one); every patch call is made on a client set built
  earlier in the session, which is also the only kind of client the framework keeps and
  the resource stores; when the provider is configured exactly once, all patch calls of
  the session are made on the same client; and a session stops early only while the
  resource holds no client.
\<close>

theorem client_resolved_once_and_reused:
  assumes "runSession q newForConfig srv calls initialSession = (s, p)"
  shows "length (filter isNewForConfig (events s)) \<le> length (filter isConfigureProvider calls) \<and>
         (\<forall>cfg. NewForConfig cfg \<in> set (events s) \<longrightarrow>
            (\<exists>req. ConfigureProvider req \<in> set calls \<and>
               cfg = configureRestConfig q (snd (configGet req)) \<and>
               cfgHost cfg = (if IsNull (Host (snd (configGet req))) then []
                              else String q (Host (snd (configGet req)))))) \<and>
         (\<forall>pre cs call post. events s = pre @ ApiPatch cs call # post \<longrightarrow>
            (\<exists>cfg. NewForConfig cfg \<in> set pre \<and> newForConfig cfg = Inr cs)) \<and>
         (\<forall>c. providerData s = PDClientset c \<longrightarrow>
            (\<exists>cs cfg. c = Some cs \<and> NewForConfig cfg \<in> set (events s) \<and>
               newForConfig cfg = Inr cs)) \<and>
         (\<forall>cs. client (resource s) = Some cs \<longrightarrow>
            (\<exists>cfg. NewForConfig cfg \<in> set (events s) \<and> newForConfig cfg = Inr cs)) \<and>
         (length (filter isConfigureProvider calls) = 1 \<longrightarrow>
            (\<forall>cs call cs' call'. ApiPatch cs call \<in> set (events s) \<and>
               ApiPatch cs' call' \<in> set (events s) \<longrightarrow> cs' = cs)) \<and>
         (p = None \<or> client (resource s) = None)"
proof -
  from run_session [OF sessionInv_initial assms]
  have inv: "sessionInv q newForConfig (\<Union>c\<in>set calls. requestsOf c) s"
    and n: "length (filter isNewForConfig (events s)) \<le> length (filter isConfigureProvider calls)"
    by (simp_all add: initialSession_def)
  from inv have rf: "resolvedFrom q (\<Union>c\<in>set calls. requestsOf c) (events s)"
    and cb: "callsOnBuilt newForConfig (events s)"
    and cl: "\<And>cs. client (resource s) = Some cs \<Longrightarrow> builtBy newForConfig (events s) cs"
    and pd: "\<And>c. providerData s = PDClientset c \<Longrightarrow>
               \<exists>cs. c = Some cs \<and> builtBy newForConfig (events s) cs"
    by (simp_all add: sessionInv_def)
  have a: "\<exists>req. ConfigureProvider req \<in> set calls \<and>
               cfg = configureRestConfig q (snd (configGet req)) \<and>
               cfgHost cfg = (if IsNull (Host (snd (configGet req))) then []
                              else String q (Host (snd (configGet req))))"
    if "NewForConfig cfg \<in> set (events s)" for cfg
  proof -
    from rf that obtain req where "req \<in> (\<Union>c\<in>set calls. requestsOf c)"
      and c: "cfg = configureRestConfig q (snd (configGet req))"
      unfolding resolvedFrom_def by blast
    then have "ConfigureProvider req \<in> set calls" by (simp only: requestsOf_calls)
    moreover from c have "cfgHost cfg = (if IsNull (Host (snd (configGet req))) then []
                              else String q (Host (snd (configGet req))))"
      by (simp add: configureRestConfig_def emptyRestConfig_def)
    ultimately show ?thesis using c by blast
  qed
  have b: "\<exists>cfg. NewForConfig cfg \<in> set pre \<and> newForConfig cfg = Inr cs"
    if "events s = pre @ ApiPatch cs call # post" for pre cs call post
    using cb that unfolding callsOnBuilt_def builtBy_def by blast
  have c: "\<exists>cfg. NewForConfig cfg \<in> set (events s) \<and> newForConfig cfg = Inr cs"
    if "client (resource s) = Some cs" for cs
    using cl [OF that] unfolding builtBy_def .
  have c': "\<exists>cs cfg. c = Some cs \<and> NewForConfig cfg \<in> set (events s) \<and> newForConfig cfg = Inr cs"
    if "providerData s = PDClientset c" for c
    using pd [OF that] unfolding builtBy_def by blast
  have d: "cs' = cs"
    if one: "length (filter isConfigureProvider calls) = 1"
      and m: "ApiPatch cs call \<in> set (events s)" "ApiPatch cs' call' \<in> set (events s)"
    for cs call cs' call'
  proof -
    from m(1) obtain pre post where e: "events s = pre @ ApiPatch cs call # post"
      by (auto simp: in_set_conv_decomp)
    from b [OF e] obtain cfg where
      1: "NewForConfig cfg \<in> set (events s)" "newForConfig cfg = Inr cs"
      using e by auto
    from m(2) obtain pre' post' where e': "events s = pre' @ ApiPatch cs' call' # post'"
      by (auto simp: in_set_conv_decomp)
    from b [OF e'] obtain cfg' where
      2: "NewForConfig cfg' \<in> set (events s)" "newForConfig cfg' = Inr cs'"
      using e' by auto
    from n one have "length (filter isNewForConfig (events s)) \<le> 1" by simp
    from filter_at_most_one [OF this 1(1) 2(1)] have "cfg = cfg'" by simp
    with 1(2) 2(2) show ?thesis by simp
  qed
  have f: "p = None \<or> client (resource s) = None"
  proof (cases p)
    case None
    then show ?thesis by simp
  next
    case (Some pn)
    with assms run_panic_no_client [of q newForConfig srv calls initialSession s pn]
    show ?thesis by simp
  qed
  from n a b c c' d f show ?thesis by blast
qed

theorem client_resolved_once_and_reused_witness:
  "runSession (Quote testExternals) testNewForConfig (\<lambda>cs call. None) testSession initialSession =
     (\<lparr>providerData = PDClientset (Some (Clientset emptyRestConfig)),
       resource = \<lparr>client = Some (Clientset emptyRestConfig)\<rparr>,
       events = [NewForConfig emptyRestConfig,
                 ApiPatch (Clientset emptyRestConfig) testCall,
                 ApiPatch (Clientset emptyRestConfig) testCall]\<rparr>, None) \<and>
   length (filter isConfigureProvider testSession) = 1 \<and>
   testNewForConfig emptyRestConfig = Inr (Clientset emptyRestConfig) \<and>
   (\<exists>req. ConfigureProvider req \<in> set testSession \<and>
      emptyRestConfig = configureRestConfig (Quote testExternals) (snd (configGet req))) \<and>
   runSession (Quote testExternals) testNewForConfig (\<lambda>cs call. None)
       [ConfigureProvider \<lparr>configGet = ([], testProviderModel)\<rparr>] initialSession =
     (\<lparr>providerData = PDNil, resource = \<lparr>client = None\<rparr>,
       events = [NewForConfig (emptyRestConfig\<lparr>cfgHost :=
                   [CHR 0x22] @ ''https://10.0.0.1:6443'' @ [CHR 0x22]\<rparr>)]\<rparr>, None) \<and>
   testNewForConfig (emptyRestConfig\<lparr>cfgHost :=
       [CHR 0x22] @ ''https://10.0.0.1:6443'' @ [CHR 0x22]\<rparr>) =
     Inl ''host must be a URL or a host:port pair''"
proof -
  note a = client_resolved_once_and_reused [OF test_session_run]
  note b = client_resolved_once_and_reused [OF test_session_refused]
  from a have "\<exists>req. ConfigureProvider req \<in> set testSession \<and>
      emptyRestConfig = configureRestConfig (Quote testExternals) (snd (configGet req))"
    by auto
  moreover have "length (filter isConfigureProvider testSession) = 1"
    by (simp add: testSession_def)
  moreover from a have "testNewForConfig emptyRestConfig = Inr (Clientset emptyRestConfig)"
    by simp
  moreover have "testNewForConfig (emptyRestConfig\<lparr>cfgHost :=
       [CHR 0x22] @ ''https://10.0.0.1:6443'' @ [CHR 0x22]\<rparr>) =
     Inl ''host must be a URL or a host:port pair''"
    by (simp add: testNewForConfig_def emptyRestConfig_def)
  moreover from b [THEN conjunct1]
  have "length (filter isNewForConfig [NewForConfig (emptyRestConfig\<lparr>cfgHost :=
       [CHR 0x22] @ ''https://10.0.0.1:6443'' @ [CHR 0x22]\<rparr>)]) \<le> 1"
    by simp
  ultimately show ?thesis using test_session_run test_session_refused by simp
qed

section \<open>The configuration of the provider\<close>

lemma configureRestConfig_only_host:
  "configureRestConfig q d =
     emptyRestConfig\<lparr>cfgHost := (if IsNull (Host d) then [] else String q (Host d))\<rparr>"
  by (simp add: configureRestConfig_def emptyRestConfig_def)

text \<open>
  \<^verbatim>\<open>initializeConfiguration\<close>, which \<^verbatim>\<open>Configure\<close> does not call, does carry the
  certificate data and the key of the provider block into the overrides.
\<close>

lemma overrides_carry_credentials:
  "hostOverride testExternals testProviderModel
     (overridesBeforeHost testProviderModel emptyOverrides) =
   Inr (emptyOverrides\<lparr>ovCertificateAuthorityData := ''CA'',
          ovClientCertificateData := ''CERT'', ovServer := ''https://10.0.0.1:6443''\<rparr>)"
  "ovClientKeyData (overridesAfterHost testExternals testProviderModel overrides) = ''KEY''"
  by (simp_all add: hostOverride_def overridesBeforeHost_def overridesAfterHost_def
      testProviderModel_def testExternals_def emptyOverrides_def)

text \<open>
  Claim C5 says that the client produced at configure time reflects the declared host,
  cluster CA certificate, client certificate, client key, token, kubeconfig paths and
  contexts, and exec block. \<^verbatim>\<open>Configure\<close> builds the client from a configuration in
  which only the host is set, to the \<^verbatim>\<open>%q\<close> rendering of the declared one: for the
  provider block of the acceptance test the CA data, the certificate data and the key
  data of the configuration handed to \<^verbatim>\<open>NewForConfig\<close> are empty.
\<close>

theorem provider_configure_drops_credentials:
  "ProviderConfigure q (\<lambda>cfg. Inr (Clientset cfg)) \<lparr>configGet = ([], testProviderModel)\<rparr>
     \<lparr>provDiagnostics = [], DataSourceData = PDNil, ResourceData = PDNil\<rparr> [] =
   (\<lparr>provDiagnostics = [], DataSourceData = PDOther ''*http.Client'',
      ResourceData = PDClientset (Some (Clientset
        \<lparr>cfgHost = q ''https://10.0.0.1:6443'', cfgCAData = [], cfgCertData = [],
         cfgKeyData = [], cfgBearerToken = [], cfgExecProvider = None\<rparr>))\<rparr>,
    [NewForConfig
        \<lparr>cfgHost = q ''https://10.0.0.1:6443'', cfgCAData = [], cfgCertData = [],
         cfgKeyData = [], cfgBearerToken = [], cfgExecProvider = None\<rparr>])"
  by (simp add: ProviderConfigure_def configureRestConfig_def emptyRestConfig_def
      testProviderModel_def Let_def)

section \<open>The kubeconfig paths\<close>

lemma expandPaths_length:
  "expandPaths f acc ps = Inr qs \<Longrightarrow> length qs = length acc + length ps"
  by (induction ps arbitrary: acc) (auto split: sum.splits)

text \<open>
  Claim C7: in the kubeconfig path resolution a set \<open>config_path\<close> wins over
  \<open>config_paths\<close>, which wins over the environment variable \<open>KUBE_CONFIG_PATHS\<close>;
  when the resulting paths all expand, a single path becomes the explicit path of the
  loading rules and several paths become their precedence list.
\<close>

theorem kubeconfig_path_precedence:
  "(\<forall>v. ValueStringPointer (ConfigPath d) = Some v \<longrightarrow> configPaths ext d = [v]) \<and>
   (ValueStringPointer (ConfigPath d) = None \<and> ConfigPaths d \<noteq> [] \<longrightarrow>
      configPaths ext d = map (String (Quote ext)) (ConfigPaths d)) \<and>
   (ValueStringPointer (ConfigPath d) = None \<and> ConfigPaths d = [] \<and>
    Getenv ext ''KUBE_CONFIG_PATHS'' \<noteq> [] \<longrightarrow>
      configPaths ext d = SplitList ext (Getenv ext ''KUBE_CONFIG_PATHS'')) \<and>
   (\<forall>ps. configPaths ext d \<noteq> [] \<and> expandPaths (Expand ext) [] (configPaths ext d) = Inr ps \<longrightarrow>
      (\<exists>loader overrides. loadingRules ext d = Inr (loader, overrides) \<and>
         length ps = length (configPaths ext d) \<and>
         (length ps = 1 \<longrightarrow> ExplicitPath loader = hd ps \<and> Precedence loader = []) \<and>
         (length ps > 1 \<longrightarrow> Precedence loader = ps \<and> ExplicitPath loader = [])))"
proof (intro conjI allI impI)
  fix v assume "ValueStringPointer (ConfigPath d) = Some v"
  then show "configPaths ext d = [v]" by (simp add: configPaths_def)
next
  assume "ValueStringPointer (ConfigPath d) = None \<and> ConfigPaths d \<noteq> []"
  then show "configPaths ext d = map (String (Quote ext)) (ConfigPaths d)"
    by (simp add: configPaths_def)
next
  assume "ValueStringPointer (ConfigPath d) = None \<and> ConfigPaths d = [] \<and>
    Getenv ext ''KUBE_CONFIG_PATHS'' \<noteq> []"
  then show "configPaths ext d = SplitList ext (Getenv ext ''KUBE_CONFIG_PATHS'')"
    by (simp add: configPaths_def)
next
  fix ps
  assume a: "configPaths ext d \<noteq> [] \<and> expandPaths (Expand ext) [] (configPaths ext d) = Inr ps"
  then have len: "length ps = length (configPaths ext d)"
    using expandPaths_length [of "Expand ext" "[]" "configPaths ext d" ps] by simp
  from a show "\<exists>loader overrides. loadingRules ext d = Inr (loader, overrides) \<and>
         length ps = length (configPaths ext d) \<and>
         (length ps = 1 \<longrightarrow> ExplicitPath loader = hd ps \<and> Precedence loader = []) \<and>
         (length ps > 1 \<longrightarrow> Precedence loader = ps \<and> ExplicitPath loader = [])"
    using len by (simp add: loadingRules_def Let_def emptyLoadingRules_def)
qed

theorem kubeconfig_path_precedence_witness:
  "configPaths testExternals
     (testProviderModel\<lparr>ConfigPath := StringValue ''/k1'', ConfigPaths := [StringValue ''/k2'']\<rparr>) = [''/k1''] \<and>
   (\<exists>overrides. loadingRules testExternals
     (testProviderModel\<lparr>ConfigPath := StringValue ''/k1'', ConfigPaths := [StringValue ''/k2'']\<rparr>) =
      Inr (\<lparr>ExplicitPath = ''/k1'', Precedence = []\<rparr>, overrides)) \<and>
   configPaths testExternals
     (testProviderModel\<lparr>ConfigPaths := [StringValue ''/k2'', StringValue ''/k3'']\<rparr>) =
     [Quote testExternals ''/k2'', Quote testExternals ''/k3''] \<and>
   (\<exists>overrides. loadingRules testExternals
     (testProviderModel\<lparr>ConfigPaths := [StringValue ''/k2'', StringValue ''/k3'']\<rparr>) =
      Inr (\<lparr>ExplicitPath = [],
            Precedence = [Quote testExternals ''/k2'', Quote testExternals ''/k3'']\<rparr>, overrides)) \<and>
   configPaths testExternals testProviderModel = [''/a'', ''/b''] \<and>
   (\<exists>overrides. loadingRules testExternals testProviderModel =
      Inr (\<lparr>ExplicitPath = [], Precedence = [''/a'', ''/b'']\<rparr>, overrides))"
proof -
  let ?d1 = "testProviderModel\<lparr>ConfigPath := StringValue ''/k1'', ConfigPaths := [StringValue ''/k2'']\<rparr>"
  let ?d2 = "testProviderModel\<lparr>ConfigPaths := [StringValue ''/k2'', StringValue ''/k3'']\<rparr>"
  have p1: "ValueStringPointer (ConfigPath ?d1) = Some ''/k1''" by simp
  have p2: "ValueStringPointer (ConfigPath ?d2) = None \<and> ConfigPaths ?d2 \<noteq> []"
    by (simp add: testProviderModel_def)
  have p3: "ValueStringPointer (ConfigPath testProviderModel) = None \<and>
            ConfigPaths testProviderModel = [] \<and>
            Getenv testExternals ''KUBE_CONFIG_PATHS'' \<noteq> []"
    by (simp add: testProviderModel_def testExternals_def)
  have e: "expandPaths (Expand testExternals) [] [a] = Inr [a]"
          "expandPaths (Expand testExternals) [] [a, b] = Inr [a, b]" for a b
    by (simp_all add: testExternals_def)
  note t1 = kubeconfig_path_precedence [of ?d1 testExternals]
  note t2 = kubeconfig_path_precedence [of ?d2 testExternals]
  note t3 = kubeconfig_path_precedence [of testProviderModel testExternals]
  from t1 p1 have c1: "configPaths testExternals ?d1 = [''/k1'']" by blast
  from t2 p2 have c2: "configPaths testExternals ?d2 = [Quote testExternals ''/k2'', Quote testExternals ''/k3'']"
    by simp
  from t3 p3 have c3: "configPaths testExternals testProviderModel = [''/a'', ''/b'']"
    by (simp add: testExternals_def)
  from t1 c1 e(1) [of "''/k1''"] obtain l1 o1 where
    l1: "loadingRules testExternals ?d1 = Inr (l1, o1)" "ExplicitPath l1 = ''/k1''" "Precedence l1 = []"
    by auto
  from t2 c2 e(2) [of "Quote testExternals ''/k2''" "Quote testExternals ''/k3''"] obtain l2 o2 where
    l2: "loadingRules testExternals ?d2 = Inr (l2, o2)" "ExplicitPath l2 = []"
        "Precedence l2 = [Quote testExternals ''/k2'', Quote testExternals ''/k3'']"
    by auto
  from t3 c3 e(2) [of "''/a''" "''/b''"] obtain l3 o3 where
    l3: "loadingRules testExternals testProviderModel = Inr (l3, o3)" "ExplicitPath l3 = []"
        "Precedence l3 = [''/a'', ''/b'']"
    by auto
  from l1 l2 l3 c1 c2 c3 show ?thesis by auto
qed

end
